theory Spec2Isabelle
  imports Main "HOL-Library.Word"
begin

unbundle bit_operations_syntax

section \<open>Machine integers of z80.h\<close>

text \<open>
  \<^verbatim>\<open>fast_u8\<close> and \<open>fast_u16\<close> are the platform's fast unsigned types (at least as wide
  as \<open>unsigned\<close>); every value the simulator keeps in them is masked to 8 or 16 bits
  (\<open>add8\<close>, \<open>make16\<close>, ...), and memory cells are \<open>least_u8\<close>.  The model keeps such
  values in \<open>8 word\<close> and \<open>16 word\<close>, whose arithmetic is the masked arithmetic, and
  widens explicitly at the places where the source computes above the mask before
  masking: the \<open>a + n\<close> and \<open>a - n\<close> handed to \<open>pf_ari\<close> by \<open>do_alu\<close> and the
  \<open>t += a\<close> of \<open>on_block_ld\<close>.
\<close>

type_synonym fast_u8 = "8 word"
type_synonym fast_u16 = "16 word"

definition get_sign8 :: "fast_u8 \<Rightarrow> bool" where
  "get_sign8 n = (n AND 0x80 \<noteq> 0)"

definition add8 :: "fast_u8 \<Rightarrow> fast_u8 \<Rightarrow> fast_u8" where
  "add8 a b = a + b"

definition sub8 :: "fast_u8 \<Rightarrow> fast_u8 \<Rightarrow> fast_u8" where
  "sub8 a b = a - b"

definition inc8 :: "fast_u8 \<Rightarrow> fast_u8" where
  "inc8 n = add8 n 1"

definition dec8 :: "fast_u8 \<Rightarrow> fast_u8" where
  "dec8 n = sub8 n 1"

definition ror8 :: "fast_u8 \<Rightarrow> fast_u8" where
  "ror8 n = drop_bit 1 n OR push_bit 7 n"

definition neg8 :: "fast_u8 \<Rightarrow> fast_u8" where
  "neg8 n = (n XOR 0xFF) + 1"

definition get_low8 :: "fast_u16 \<Rightarrow> fast_u8" where
  "get_low8 n = ucast n"

definition get_high8 :: "fast_u16 \<Rightarrow> fast_u8" where
  "get_high8 n = ucast (drop_bit 8 n)"

definition make16 :: "fast_u8 \<Rightarrow> fast_u8 \<Rightarrow> fast_u16" where
  "make16 hi lo = push_bit 8 (ucast hi) OR ucast lo"

definition add16 :: "fast_u16 \<Rightarrow> fast_u16 \<Rightarrow> fast_u16" where
  "add16 a b = a + b"

definition sub16 :: "fast_u16 \<Rightarrow> fast_u16 \<Rightarrow> fast_u16" where
  "sub16 a b = a - b"

definition inc16 :: "fast_u16 \<Rightarrow> fast_u16" where
  "inc16 n = add16 n 1"

definition dec16 :: "fast_u16 \<Rightarrow> fast_u16" where
  "dec16 n = sub16 n 1"

section \<open>Enumerations\<close>

datatype reg = reg_b | reg_c | reg_d | reg_e | reg_h | reg_l | at_hl | reg_a

datatype regp = regp_bc | regp_de | regp_hl | regp_sp

datatype regp2 = regp2_bc | regp2_de | regp2_hl | regp2_af

datatype index_regp = irp_hl | irp_ix | irp_iy

datatype instruction_prefix = prefix_none | prefix_cb | prefix_ed

datatype alu = alu_add | alu_adc | alu_sub | alu_sbc | alu_and_a | alu_xor_a | alu_or_a | alu_cp

datatype block_ld = ldi | ldd | ldir | lddr

datatype condition = cc_nz | cc_z | cc_nc | cc_c | cc_po | cc_pe | cc_p | cc_m

text \<open>The \<open>static_cast\<close>s of the decoder, from a 3-bit or 2-bit opcode field.\<close>

definition to_reg :: "fast_u8 \<Rightarrow> reg" where
  "to_reg y = (if y = 0 then reg_b else if y = 1 then reg_c else if y = 2 then reg_d
     else if y = 3 then reg_e else if y = 4 then reg_h else if y = 5 then reg_l
     else if y = 6 then at_hl else reg_a)"

definition to_regp :: "fast_u8 \<Rightarrow> regp" where
  "to_regp p = (if p = 0 then regp_bc else if p = 1 then regp_de
     else if p = 2 then regp_hl else regp_sp)"

definition to_regp2 :: "fast_u8 \<Rightarrow> regp2" where
  "to_regp2 p = (if p = 0 then regp2_bc else if p = 1 then regp2_de
     else if p = 2 then regp2_hl else regp2_af)"

definition to_alu :: "fast_u8 \<Rightarrow> alu" where
  "to_alu y = (if y = 0 then alu_add else if y = 1 then alu_adc else if y = 2 then alu_sub
     else if y = 3 then alu_sbc else if y = 4 then alu_and_a else if y = 5 then alu_xor_a
     else if y = 6 then alu_or_a else alu_cp)"

definition to_block_ld :: "fast_u8 \<Rightarrow> block_ld" where
  "to_block_ld k = (if k = 0 then ldi else if k = 1 then ldd
     else if k = 2 then ldir else lddr)"

definition to_condition :: "fast_u8 \<Rightarrow> condition" where
  "to_condition y = (if y = 0 then cc_nz else if y = 1 then cc_z else if y = 2 then cc_nc
     else if y = 3 then cc_c else if y = 4 then cc_po else if y = 5 then cc_pe
     else if y = 6 then cc_p else cc_m)"

text \<open>The numeric values of the enumerators, where the source computes with them.\<close>

fun block_ld_code :: "block_ld \<Rightarrow> fast_u8" where
  "block_ld_code ldi = 0"
| "block_ld_code ldd = 1"
| "block_ld_code ldir = 2"
| "block_ld_code lddr = 3"

fun condition_code :: "condition \<Rightarrow> fast_u8" where
  "condition_code cc_nz = 0"
| "condition_code cc_z = 1"
| "condition_code cc_nc = 2"
| "condition_code cc_c = 3"
| "condition_code cc_po = 4"
| "condition_code cc_pe = 5"
| "condition_code cc_p = 6"
| "condition_code cc_m = 7"

section \<open>Flags (processor_base)\<close>

abbreviation (input) sf_mask :: fast_u8 where "sf_mask \<equiv> 0x80"
abbreviation (input) zf_mask :: fast_u8 where "zf_mask \<equiv> 0x40"
abbreviation (input) yf_mask :: fast_u8 where "yf_mask \<equiv> 0x20"
abbreviation (input) hf_mask :: fast_u8 where "hf_mask \<equiv> 0x10"
abbreviation (input) xf_mask :: fast_u8 where "xf_mask \<equiv> 0x08"
abbreviation (input) pf_mask :: fast_u8 where "pf_mask \<equiv> 0x04"
abbreviation (input) nf_mask :: fast_u8 where "nf_mask \<equiv> 0x02"
abbreviation (input) cf_mask :: fast_u8 where "cf_mask \<equiv> 0x01"

definition zf_ari :: "'a::len word \<Rightarrow> fast_u8" where
  "zf_ari n = push_bit 6 (if n = 0 then 1 else 0)"

definition hf_ari :: "'a::len word \<Rightarrow> 'a word \<Rightarrow> 'a word \<Rightarrow> fast_u8" where
  "hf_ari r a b = ucast ((r XOR a XOR b) AND 0x10)"

definition hf_dec :: "fast_u8 \<Rightarrow> fast_u8" where
  "hf_dec n = (if n AND 0xF = 0xF then hf_mask else 0)"

definition hf_inc :: "fast_u8 \<Rightarrow> fast_u8" where
  "hf_inc n = (if n AND 0xF = 0x0 then hf_mask else 0)"

text \<open>\<open>pf_ari\<close> keeps \<open>r ^ a ^ b\<close> in a \<open>fast_u16\<close> and reads its bits 8 and 7.\<close>

definition pf_ari :: "'a::len word \<Rightarrow> 'a word \<Rightarrow> 'a word \<Rightarrow> fast_u8" where
  "pf_ari r a b =
     (let x = (ucast (r XOR a XOR b) :: fast_u16)
      in ucast ((drop_bit 6 x XOR drop_bit 5 x) AND 0x04))"

definition pf_log4 :: "fast_u8 \<Rightarrow> bool" where
  "pf_log4 n = ((0x9669 :: 32 word) AND push_bit (unat (n AND 0xF)) 1 \<noteq> 0)"

definition pf_log :: "fast_u8 \<Rightarrow> fast_u8" where
  "pf_log n =
     (let lo = pf_log4 n; hi = pf_log4 (drop_bit 4 n)
      in if lo = hi then pf_mask else 0)"

definition pf_dec :: "fast_u8 \<Rightarrow> fast_u8" where
  "pf_dec n = (if n = 0x7F then pf_mask else 0)"

definition pf_inc :: "fast_u8 \<Rightarrow> fast_u8" where
  "pf_inc n = (if n = 0x80 then pf_mask else 0)"

definition cf_ari :: "bool \<Rightarrow> fast_u8" where
  "cf_ari c = (if c then cf_mask else 0)"

section \<open>The machine: decoder state, processor state, memory and tick counter\<close>

text \<open>
  One record holds what the classes of a \<open>machine\<close> (tester.cpp) hold together:
  \<open>instructions_decoder::decoder_state\<close>, \<open>processor_base::processor_state\<close>, the
  64K memory image and the tick counter.
\<close>

record machine =
  index_rp :: index_regp
  next_index_rp :: index_regp
  prefix :: instruction_prefix
  last_read_addr :: fast_u16
  disable_int :: bool
  bc :: fast_u16
  de :: fast_u16
  hl :: fast_u16
  af :: fast_u16
  ix :: fast_u16
  iy :: fast_u16
  alt_bc :: fast_u16
  alt_de :: fast_u16
  alt_hl :: fast_u16
  pc :: fast_u16
  sp :: fast_u16
  ir :: fast_u16
  memptr :: fast_u16
  iff1 :: bool
  iff2 :: bool
  int_mode :: nat
  image_bytes :: "fast_u16 \<Rightarrow> fast_u8"
  ticks :: nat

text \<open>What a step can end in instead of returning: a failed \<open>assert(0)\<close> or one of the
  three \<open>std::abort()\<close> calls of the decoder, with the opcode and \<open>last_read_addr\<close> they print.\<close>

datatype error =
    Assertion_failed
  | Unknown_opcode fast_u8 fast_u16
  | Unknown_cb_prefixed_opcode fast_u8 fast_u16
  | Unknown_ed_prefixed_opcode fast_u8 fast_u16

text \<open>The constructors \<open>decoder_state()\<close> and \<open>processor_state()\<close>, a fresh tick counter,
  and the memory image given.\<close>

definition reset_machine :: "(fast_u16 \<Rightarrow> fast_u8) \<Rightarrow> machine" where
  "reset_machine img =
     \<lparr> index_rp = irp_hl, next_index_rp = irp_hl, prefix = prefix_none,
       last_read_addr = 0, disable_int = False,
       bc = 0, de = 0, hl = 0, af = 0, ix = 0, iy = 0,
       alt_bc = 0, alt_de = 0, alt_hl = 0,
       pc = 0, sp = 0, ir = 0, memptr = 0,
       iff1 = False, iff2 = False, int_mode = 0,
       image_bytes = img, ticks = 0 \<rparr>"

subsection \<open>Memory and clock (the integrator's side)\<close>

text \<open>Modelled from the spec: \<open>memory_interface\<close> (which gives \<open>on_access\<close>) and
  \<open>trivial_ticks_counter\<close> (which gives \<open>tick\<close>) are used by tester.cpp and declared
  outside z80.h.  The spec's integration contract has \<open>access(addr)\<close> as an untimed peek
  and poke of a byte-addressable 64 KiB array and \<open>tick(n)\<close> advancing the T-state
  counter by \<open>n\<close>.\<close>

definition on_access :: "fast_u16 \<Rightarrow> machine \<Rightarrow> fast_u8" where
  "on_access addr s = image_bytes s addr"

definition on_access_assign :: "fast_u16 \<Rightarrow> fast_u8 \<Rightarrow> machine \<Rightarrow> machine" where
  "on_access_assign addr n s = s\<lparr>image_bytes := (image_bytes s)(addr := n)\<rparr>"

definition tick :: "nat \<Rightarrow> machine \<Rightarrow> machine" where
  "tick t s = s\<lparr>ticks := ticks s + t\<rparr>"

section \<open>Register access (processor)\<close>

text \<open>The \<open>on_get_*\<close> and \<open>on_set_*\<close> handlers of the 8-bit registers forward to
  \<open>get_*\<close> and \<open>set_*\<close>; the model names the latter only.\<close>

definition get_b :: "machine \<Rightarrow> fast_u8" where "get_b s = get_high8 (bc s)"
definition get_c :: "machine \<Rightarrow> fast_u8" where "get_c s = get_low8 (bc s)"
definition get_d :: "machine \<Rightarrow> fast_u8" where "get_d s = get_high8 (de s)"
definition get_e :: "machine \<Rightarrow> fast_u8" where "get_e s = get_low8 (de s)"
definition get_h :: "machine \<Rightarrow> fast_u8" where "get_h s = get_high8 (hl s)"
definition get_l :: "machine \<Rightarrow> fast_u8" where "get_l s = get_low8 (hl s)"
definition get_a :: "machine \<Rightarrow> fast_u8" where "get_a s = get_high8 (af s)"
definition get_f :: "machine \<Rightarrow> fast_u8" where "get_f s = get_low8 (af s)"
definition get_ixh :: "machine \<Rightarrow> fast_u8" where "get_ixh s = get_high8 (ix s)"
definition get_ixl :: "machine \<Rightarrow> fast_u8" where "get_ixl s = get_low8 (ix s)"
definition get_iyh :: "machine \<Rightarrow> fast_u8" where "get_iyh s = get_high8 (iy s)"
definition get_iyl :: "machine \<Rightarrow> fast_u8" where "get_iyl s = get_low8 (iy s)"
definition get_i :: "machine \<Rightarrow> fast_u8" where "get_i s = get_high8 (ir s)"
definition get_r_reg :: "machine \<Rightarrow> fast_u8" where "get_r_reg s = get_low8 (ir s)"

definition set_b :: "fast_u8 \<Rightarrow> machine \<Rightarrow> machine" where
  "set_b n s = s\<lparr>bc := make16 n (get_c s)\<rparr>"
definition set_c :: "fast_u8 \<Rightarrow> machine \<Rightarrow> machine" where
  "set_c n s = s\<lparr>bc := make16 (get_b s) n\<rparr>"
definition set_d :: "fast_u8 \<Rightarrow> machine \<Rightarrow> machine" where
  "set_d n s = s\<lparr>de := make16 n (get_e s)\<rparr>"
definition set_e :: "fast_u8 \<Rightarrow> machine \<Rightarrow> machine" where
  "set_e n s = s\<lparr>de := make16 (get_d s) n\<rparr>"
definition set_h :: "fast_u8 \<Rightarrow> machine \<Rightarrow> machine" where
  "set_h n s = s\<lparr>hl := make16 n (get_l s)\<rparr>"
definition set_l :: "fast_u8 \<Rightarrow> machine \<Rightarrow> machine" where
  "set_l n s = s\<lparr>hl := make16 (get_h s) n\<rparr>"
definition set_a :: "fast_u8 \<Rightarrow> machine \<Rightarrow> machine" where
  "set_a n s = s\<lparr>af := make16 n (get_f s)\<rparr>"
definition set_f :: "fast_u8 \<Rightarrow> machine \<Rightarrow> machine" where
  "set_f n s = s\<lparr>af := make16 (get_a s) n\<rparr>"
definition set_ixh :: "fast_u8 \<Rightarrow> machine \<Rightarrow> machine" where
  "set_ixh n s = s\<lparr>ix := make16 n (get_ixl s)\<rparr>"
definition set_ixl :: "fast_u8 \<Rightarrow> machine \<Rightarrow> machine" where
  "set_ixl n s = s\<lparr>ix := make16 (get_ixh s) n\<rparr>"
definition set_iyh :: "fast_u8 \<Rightarrow> machine \<Rightarrow> machine" where
  "set_iyh n s = s\<lparr>iy := make16 n (get_iyl s)\<rparr>"
definition set_iyl :: "fast_u8 \<Rightarrow> machine \<Rightarrow> machine" where
  "set_iyl n s = s\<lparr>iy := make16 (get_iyh s) n\<rparr>"
definition set_i :: "fast_u8 \<Rightarrow> machine \<Rightarrow> machine" where
  "set_i n s = s\<lparr>ir := make16 n (get_r_reg s)\<rparr>"

text \<open>Register pairs are read and written a byte at a time, low byte first.\<close>

definition on_get_af :: "machine \<Rightarrow> fast_u16" where
  "on_get_af s = (let f = get_f s; a = get_a s in make16 a f)"
definition on_set_af :: "fast_u16 \<Rightarrow> machine \<Rightarrow> machine" where
  "on_set_af nn s = set_a (get_high8 nn) (set_f (get_low8 nn) s)"

definition on_get_hl :: "machine \<Rightarrow> fast_u16" where
  "on_get_hl s = (let l = get_l s; h = get_h s in make16 h l)"
definition on_set_hl :: "fast_u16 \<Rightarrow> machine \<Rightarrow> machine" where
  "on_set_hl nn s = set_h (get_high8 nn) (set_l (get_low8 nn) s)"

definition on_get_bc :: "machine \<Rightarrow> fast_u16" where
  "on_get_bc s = (let l = get_c s; h = get_b s in make16 h l)"
definition on_set_bc :: "fast_u16 \<Rightarrow> machine \<Rightarrow> machine" where
  "on_set_bc nn s = set_b (get_high8 nn) (set_c (get_low8 nn) s)"

definition on_get_de :: "machine \<Rightarrow> fast_u16" where
  "on_get_de s = (let l = get_e s; h = get_d s in make16 h l)"
definition on_set_de :: "fast_u16 \<Rightarrow> machine \<Rightarrow> machine" where
  "on_set_de nn s = set_d (get_high8 nn) (set_e (get_low8 nn) s)"

definition on_get_ix :: "machine \<Rightarrow> fast_u16" where
  "on_get_ix s = (let l = get_ixl s; h = get_ixh s in make16 h l)"
definition on_set_ix :: "fast_u16 \<Rightarrow> machine \<Rightarrow> machine" where
  "on_set_ix nn s = set_ixh (get_high8 nn) (set_ixl (get_low8 nn) s)"

definition on_get_iy :: "machine \<Rightarrow> fast_u16" where
  "on_get_iy s = (let l = get_iyl s; h = get_iyh s in make16 h l)"
definition on_set_iy :: "fast_u16 \<Rightarrow> machine \<Rightarrow> machine" where
  "on_set_iy nn s = set_iyh (get_high8 nn) (set_iyl (get_low8 nn) s)"

definition on_get_sp :: "machine \<Rightarrow> fast_u16" where "on_get_sp s = sp s"
definition on_set_sp :: "fast_u16 \<Rightarrow> machine \<Rightarrow> machine" where
  "on_set_sp nn s = s\<lparr>sp := nn\<rparr>"

definition on_get_pc :: "machine \<Rightarrow> fast_u16" where "on_get_pc s = pc s"
definition on_set_pc :: "fast_u16 \<Rightarrow> machine \<Rightarrow> machine" where
  "on_set_pc nn s = s\<lparr>pc := nn\<rparr>"

definition on_get_ir :: "machine \<Rightarrow> fast_u16" where "on_get_ir s = ir s"

definition on_get_memptr :: "machine \<Rightarrow> fast_u16" where "on_get_memptr s = memptr s"
definition on_set_memptr :: "fast_u16 \<Rightarrow> machine \<Rightarrow> machine" where
  "on_set_memptr nn s = s\<lparr>memptr := nn\<rparr>"

definition on_set_iff1 :: "bool \<Rightarrow> machine \<Rightarrow> machine" where
  "on_set_iff1 v s = s\<lparr>iff1 := v\<rparr>"
definition on_set_iff2 :: "bool \<Rightarrow> machine \<Rightarrow> machine" where
  "on_set_iff2 v s = s\<lparr>iff2 := v\<rparr>"
definition on_set_int_mode :: "nat \<Rightarrow> machine \<Rightarrow> machine" where
  "on_set_int_mode mode s = s\<lparr>int_mode := mode\<rparr>"

definition on_disable_int :: "machine \<Rightarrow> machine" where
  "on_disable_int s = s\<lparr>disable_int := True\<rparr>"

definition get_index_rp_kind :: "machine \<Rightarrow> index_regp" where
  "get_index_rp_kind s = index_rp s"

definition on_get_index_rp :: "machine \<Rightarrow> fast_u16" where
  "on_get_index_rp s =
     (case get_index_rp_kind s of
        irp_hl \<Rightarrow> on_get_hl s
      | irp_ix \<Rightarrow> on_get_ix s
      | irp_iy \<Rightarrow> on_get_iy s)"

definition on_set_index_rp :: "fast_u16 \<Rightarrow> machine \<Rightarrow> machine" where
  "on_set_index_rp nn s =
     (case get_index_rp_kind s of
        irp_hl \<Rightarrow> on_set_hl nn s
      | irp_ix \<Rightarrow> on_set_ix nn s
      | irp_iy \<Rightarrow> on_set_iy nn s)"

definition on_get_rp :: "regp \<Rightarrow> machine \<Rightarrow> fast_u16" where
  "on_get_rp rp s =
     (case rp of
        regp_bc \<Rightarrow> on_get_bc s
      | regp_de \<Rightarrow> on_get_de s
      | regp_hl \<Rightarrow> on_get_index_rp s
      | regp_sp \<Rightarrow> on_get_sp s)"

definition on_set_rp :: "regp \<Rightarrow> fast_u16 \<Rightarrow> machine \<Rightarrow> machine" where
  "on_set_rp rp nn s =
     (case rp of
        regp_bc \<Rightarrow> on_set_bc nn s
      | regp_de \<Rightarrow> on_set_de nn s
      | regp_hl \<Rightarrow> on_set_index_rp nn s
      | regp_sp \<Rightarrow> on_set_sp nn s)"

definition on_get_rp2 :: "regp2 \<Rightarrow> machine \<Rightarrow> fast_u16" where
  "on_get_rp2 rp s =
     (case rp of
        regp2_bc \<Rightarrow> on_get_bc s
      | regp2_de \<Rightarrow> on_get_de s
      | regp2_hl \<Rightarrow> on_get_index_rp s
      | regp2_af \<Rightarrow> on_get_af s)"

definition on_set_rp2 :: "regp2 \<Rightarrow> fast_u16 \<Rightarrow> machine \<Rightarrow> machine" where
  "on_set_rp2 rp nn s =
     (case rp of
        regp2_bc \<Rightarrow> on_set_bc nn s
      | regp2_de \<Rightarrow> on_set_de nn s
      | regp2_hl \<Rightarrow> on_set_index_rp nn s
      | regp2_af \<Rightarrow> on_set_af nn s)"

section \<open>Bus cycles (processor)\<close>

text \<open>\<open>on_set_addr_bus\<close> does nothing in the processor (\<open>unused(addr)\<close>) and is left out.\<close>

definition on_fetch_cycle :: "fast_u16 \<Rightarrow> machine \<Rightarrow> fast_u8 \<times> machine" where
  "on_fetch_cycle addr s =
     (let b = on_access addr s; s1 = tick 2 s; s2 = tick 2 s1
      in (b, s2\<lparr>last_read_addr := addr\<rparr>))"

definition on_5t_fetch_cycle :: "machine \<Rightarrow> machine" where
  "on_5t_fetch_cycle s = tick 1 s"

definition on_6t_fetch_cycle :: "machine \<Rightarrow> machine" where
  "on_6t_fetch_cycle s = tick 2 s"

definition on_3t_read_cycle :: "fast_u16 \<Rightarrow> machine \<Rightarrow> fast_u8 \<times> machine" where
  "on_3t_read_cycle addr s =
     (let b = on_access addr s; s1 = tick 3 s in (b, s1\<lparr>last_read_addr := addr\<rparr>))"

definition on_4t_read_cycle :: "fast_u16 \<Rightarrow> machine \<Rightarrow> fast_u8 \<times> machine" where
  "on_4t_read_cycle addr s =
     (let b = on_access addr s; s1 = tick 4 s in (b, s1\<lparr>last_read_addr := addr\<rparr>))"

definition on_5t_read_cycle :: "fast_u16 \<Rightarrow> machine \<Rightarrow> fast_u8 \<times> machine" where
  "on_5t_read_cycle addr s =
     (let b = on_access addr s; s1 = tick 5 s in (b, s1\<lparr>last_read_addr := addr\<rparr>))"

definition on_disp_read_cycle :: "fast_u16 \<Rightarrow> machine \<Rightarrow> fast_u8 \<times> machine" where
  "on_disp_read_cycle addr s = on_3t_read_cycle addr s"

definition on_3t_write_cycle :: "fast_u16 \<Rightarrow> fast_u8 \<Rightarrow> machine \<Rightarrow> machine" where
  "on_3t_write_cycle addr n s = tick 3 (on_access_assign addr n s)"

definition on_5t_write_cycle :: "fast_u16 \<Rightarrow> fast_u8 \<Rightarrow> machine \<Rightarrow> machine" where
  "on_5t_write_cycle addr n s = tick 5 (on_access_assign addr n s)"

definition on_3t_exec_cycle :: "machine \<Rightarrow> machine" where
  "on_3t_exec_cycle s = tick 3 s"

definition on_4t_exec_cycle :: "machine \<Rightarrow> machine" where
  "on_4t_exec_cycle s = tick 4 s"

definition on_5t_exec_cycle :: "machine \<Rightarrow> machine" where
  "on_5t_exec_cycle s = tick 5 s"

definition on_output_cycle :: "fast_u16 \<Rightarrow> fast_u8 \<Rightarrow> machine \<Rightarrow> machine" where
  "on_output_cycle addr b s = tick 4 s"

definition on_fetch :: "machine \<Rightarrow> fast_u8 \<times> machine" where
  "on_fetch s =
     (let pc0 = on_get_pc s; (op, s1) = on_fetch_cycle pc0 s
      in (op, on_set_pc (inc16 pc0) s1))"

definition on_3t_imm8_read :: "machine \<Rightarrow> fast_u8 \<times> machine" where
  "on_3t_imm8_read s =
     (let pc0 = on_get_pc s; (op, s1) = on_3t_read_cycle pc0 s
      in (op, on_set_pc (inc16 pc0) s1))"

definition on_5t_imm8_read :: "machine \<Rightarrow> fast_u8 \<times> machine" where
  "on_5t_imm8_read s =
     (let pc0 = on_get_pc s; (op, s1) = on_5t_read_cycle pc0 s
      in (op, on_set_pc (inc16 pc0) s1))"

definition on_3t_3t_imm16_read :: "machine \<Rightarrow> fast_u16 \<times> machine" where
  "on_3t_3t_imm16_read s =
     (let pc0 = on_get_pc s;
          (lo, s1) = on_3t_read_cycle pc0 s;
          pc1 = inc16 pc0;
          (hi, s2) = on_3t_read_cycle pc1 s1
      in (make16 hi lo, on_set_pc (inc16 pc1) s2))"

definition on_3t_4t_imm16_read :: "machine \<Rightarrow> fast_u16 \<times> machine" where
  "on_3t_4t_imm16_read s =
     (let pc0 = on_get_pc s;
          (lo, s1) = on_3t_read_cycle pc0 s;
          pc1 = inc16 pc0;
          (hi, s2) = on_4t_read_cycle pc1 s1
      in (make16 hi lo, on_set_pc (inc16 pc1) s2))"

definition on_disp_read :: "machine \<Rightarrow> fast_u8 \<times> machine" where
  "on_disp_read s =
     (let pc0 = on_get_pc s; (op, s1) = on_disp_read_cycle pc0 s
      in (op, on_set_pc (inc16 pc0) s1))"

section \<open>Operand access (processor)\<close>

definition get_disp_target :: "fast_u16 \<Rightarrow> fast_u8 \<Rightarrow> fast_u16" where
  "get_disp_target base d =
     (if \<not> get_sign8 d then add16 base (ucast d) else sub16 base (ucast (neg8 d)))"

definition read_at_disp :: "fast_u8 \<Rightarrow> bool \<Rightarrow> machine \<Rightarrow> fast_u8 \<times> machine" where
  "read_at_disp d long_read_cycle s =
     (let addr = get_disp_target (on_get_index_rp s) d;
          (res, s1) = (if long_read_cycle then on_4t_read_cycle addr s
                       else on_3t_read_cycle addr s);
          s2 = (if get_index_rp_kind s1 \<noteq> irp_hl then on_set_memptr addr s1 else s1)
      in (res, s2))"

definition write_at_disp :: "fast_u8 \<Rightarrow> fast_u8 \<Rightarrow> machine \<Rightarrow> machine" where
  "write_at_disp d n s =
     (let addr = get_disp_target (on_get_index_rp s) d;
          s1 = on_3t_write_cycle addr n s
      in if get_index_rp_kind s1 \<noteq> irp_hl then on_set_memptr addr s1 else s1)"

definition on_get_r :: "reg \<Rightarrow> fast_u8 \<Rightarrow> bool \<Rightarrow> machine \<Rightarrow> fast_u8 \<times> machine" where
  "on_get_r r d long_read_cycle s =
     (case r of
        reg_b \<Rightarrow> (get_b s, s)
      | reg_c \<Rightarrow> (get_c s, s)
      | reg_d \<Rightarrow> (get_d s, s)
      | reg_e \<Rightarrow> (get_e s, s)
      | reg_h \<Rightarrow> (get_h s, s)
      | reg_l \<Rightarrow> (get_l s, s)
      | at_hl \<Rightarrow> read_at_disp d long_read_cycle s
      | reg_a \<Rightarrow> (get_a s, s))"

definition on_set_r :: "reg \<Rightarrow> fast_u8 \<Rightarrow> fast_u8 \<Rightarrow> machine \<Rightarrow> machine" where
  "on_set_r r d n s =
     (case r of
        reg_b \<Rightarrow> set_b n s
      | reg_c \<Rightarrow> set_c n s
      | reg_d \<Rightarrow> set_d n s
      | reg_e \<Rightarrow> set_e n s
      | reg_h \<Rightarrow> set_h n s
      | reg_l \<Rightarrow> set_l n s
      | at_hl \<Rightarrow> write_at_disp d n s
      | reg_a \<Rightarrow> set_a n s)"

section \<open>Instruction handlers (processor)\<close>

text \<open>The switch of \<open>do_alu\<close> computes the new \<open>a\<close> and \<open>f\<close>; ADC and SBC are
  \<open>assert(0)\<close>.  \<open>a + n\<close> and \<open>a - n\<close> are computed in \<open>unsigned\<close>.\<close>

definition do_alu :: "alu \<Rightarrow> fast_u8 \<Rightarrow> machine \<Rightarrow> error + machine" where
  "do_alu k n s =
     (let a = get_a s;
          af' =
            (case k of
               alu_add \<Rightarrow>
                 (let t = add8 a n;
                      f = (t AND (sf_mask OR yf_mask OR xf_mask)) OR zf_ari t OR
                          hf_ari t a n OR
                          pf_ari ((ucast a :: 32 word) + ucast n) (ucast a) (ucast n) OR
                          cf_ari (t < a)
                  in Inr (t, f))
             | alu_adc \<Rightarrow> Inl Assertion_failed
             | alu_sub \<Rightarrow>
                 (let t = sub8 a n;
                      f = (t AND (sf_mask OR yf_mask OR xf_mask)) OR zf_ari t OR
                          hf_ari t a n OR
                          pf_ari ((ucast a :: 32 word) - ucast n) (ucast a) (ucast n) OR
                          cf_ari (t > a) OR nf_mask
                  in Inr (t, f))
             | alu_sbc \<Rightarrow> Inl Assertion_failed
             | alu_and_a \<Rightarrow>
                 (let a1 = a AND n;
                      f = (a1 AND (sf_mask OR yf_mask OR xf_mask)) OR zf_ari a1 OR pf_log a1 OR
                          hf_mask
                  in Inr (a1, f))
             | alu_xor_a \<Rightarrow>
                 (let a1 = a XOR n;
                      f = (a1 AND (sf_mask OR yf_mask OR xf_mask)) OR zf_ari a1 OR pf_log a1
                  in Inr (a1, f))
             | alu_or_a \<Rightarrow>
                 (let a1 = a OR n;
                      f = (a1 AND (sf_mask OR yf_mask OR xf_mask)) OR zf_ari a1 OR pf_log a1
                  in Inr (a1, f))
             | alu_cp \<Rightarrow>
                 (let t = sub8 a n;
                      f = (t AND sf_mask) OR zf_ari t OR (n AND (yf_mask OR xf_mask)) OR
                          hf_ari t a n OR
                          pf_ari ((ucast a :: 32 word) - ucast n) (ucast a) (ucast n) OR
                          cf_ari (t > a) OR nf_mask
                  in Inr (a, f)))
      in case af' of
           Inl e \<Rightarrow> Inl e
         | Inr (a1, f) \<Rightarrow>
             (let s1 = (if k \<noteq> alu_cp then set_a a1 s else s) in Inr (set_f f s1)))"

definition get_flag_mask :: "condition \<Rightarrow> fast_u8" where
  "get_flag_mask cc =
     (let q = condition_code cc div 2
      in if q = 0 then zf_mask else if q = 1 then cf_mask
         else if q = 2 then pf_mask else sf_mask)"

definition check_condition :: "condition \<Rightarrow> machine \<Rightarrow> bool" where
  "check_condition cc s =
     (let actual = (get_f s AND get_flag_mask cc \<noteq> 0);
          expected = (condition_code cc AND 1 \<noteq> 0)
      in actual = expected)"

definition on_noni_ed :: "fast_u8 \<Rightarrow> machine \<Rightarrow> machine" where
  "on_noni_ed op s = s"

definition on_push :: "fast_u16 \<Rightarrow> machine \<Rightarrow> machine" where
  "on_push nn s =
     (let sp0 = on_get_sp s;
          sp1 = dec16 sp0;
          s1 = on_3t_write_cycle sp1 (get_high8 nn) s;
          sp2 = dec16 sp1;
          s2 = on_3t_write_cycle sp2 (get_low8 nn) s1
      in on_set_sp sp2 s2)"

definition on_pop :: "machine \<Rightarrow> fast_u16 \<times> machine" where
  "on_pop s =
     (let sp0 = on_get_sp s;
          (lo, s1) = on_3t_read_cycle sp0 s;
          sp1 = inc16 sp0;
          (hi, s2) = on_3t_read_cycle sp1 s1;
          sp2 = inc16 sp1
      in (make16 hi lo, on_set_sp sp2 s2))"

definition on_call :: "fast_u16 \<Rightarrow> machine \<Rightarrow> machine" where
  "on_call nn s = on_set_pc nn (on_set_memptr nn (on_push (on_get_pc s) s))"

definition on_return :: "machine \<Rightarrow> machine" where
  "on_return s = (let (pc1, s1) = on_pop s in on_set_pc pc1 (on_set_memptr pc1 s1))"

definition on_relative_jump :: "fast_u8 \<Rightarrow> machine \<Rightarrow> machine" where
  "on_relative_jump d s =
     (let s1 = on_5t_exec_cycle s;
          mp = get_disp_target (on_get_pc s1) d
      in on_set_pc mp (on_set_memptr mp s1))"

text \<open>\<open>on_add_irp_rp\<close> computes the new flags into its local \<open>f\<close> and returns without
  a call of \<open>on_set_f\<close>: the value is bound here as the source binds it, and is not used.\<close>

definition on_add_irp_rp :: "regp \<Rightarrow> machine \<Rightarrow> machine" where
  "on_add_irp_rp rp s =
     (let i = on_get_index_rp s;
          n = on_get_rp rp s;
          f0 = get_f s;
          s1 = on_3t_exec_cycle (on_4t_exec_cycle s);
          r = add16 i n;
          f = (f0 AND (sf_mask OR zf_mask OR pf_mask)) OR
              (get_high8 r AND (yf_mask OR xf_mask)) OR
              hf_ari (drop_bit 8 r) (drop_bit 8 i) (drop_bit 8 n) OR cf_ari (r < i)
      in on_set_index_rp r (on_set_memptr (inc16 i) s1))"

definition on_adc_hl_rp :: "regp \<Rightarrow> machine \<Rightarrow> machine" where
  "on_adc_hl_rp rp s =
     (let hl0 = on_get_hl s;
          n = on_get_rp rp s;
          cf = (get_f s AND cf_mask \<noteq> 0);
          s1 = on_3t_exec_cycle (on_4t_exec_cycle s);
          t = add16 n (if cf then 1 else 0);
          ovf = (cf \<and> t = 0);
          r = add16 hl0 t;
          f = (get_high8 r AND (sf_mask OR yf_mask OR xf_mask)) OR zf_ari r OR
              hf_ari (drop_bit 8 r) (drop_bit 8 hl0) (drop_bit 8 n) OR
              (pf_ari (drop_bit 8 r) (drop_bit 8 hl0) (drop_bit 8 n) XOR
                 (if ovf then pf_mask else 0)) OR
              cf_ari (r < hl0 \<or> ovf)
      in set_f f (on_set_hl r (on_set_memptr (inc16 hl0) s1)))"

definition on_sbc_hl_rp :: "regp \<Rightarrow> machine \<Rightarrow> machine" where
  "on_sbc_hl_rp rp s =
     (let hl0 = on_get_hl s;
          n = on_get_rp rp s;
          cf = (get_f s AND cf_mask \<noteq> 0);
          s1 = on_3t_exec_cycle (on_4t_exec_cycle s);
          t = add16 n (if cf then 1 else 0);
          ovf = (cf \<and> t = 0);
          r = sub16 hl0 t;
          f = (get_high8 r AND (sf_mask OR yf_mask OR xf_mask)) OR zf_ari r OR
              hf_ari (drop_bit 8 r) (drop_bit 8 hl0) (drop_bit 8 n) OR
              (pf_ari (drop_bit 8 r) (drop_bit 8 hl0) (drop_bit 8 n) XOR
                 (if ovf then pf_mask else 0)) OR
              cf_ari (r > hl0 \<or> ovf) OR nf_mask
      in set_f f (on_set_hl r (on_set_memptr (inc16 hl0) s1)))"

definition on_alu_n :: "alu \<Rightarrow> fast_u8 \<Rightarrow> machine \<Rightarrow> error + machine" where
  "on_alu_n k n s = do_alu k n s"

definition on_alu_r :: "alu \<Rightarrow> reg \<Rightarrow> fast_u8 \<Rightarrow> machine \<Rightarrow> error + machine" where
  "on_alu_r k r d s = (let (n, s1) = on_get_r r d False s in do_alu k n s1)"

text \<open>In \<open>on_block_ld\<close> the byte read is added to \<open>a\<close> without a mask (\<open>t += a\<close>), and the
  flags take bits 1 and 3 of the sum.  An odd \<open>k\<close> (LDD, LDDR) counts the addresses down.\<close>

definition on_block_ld :: "block_ld \<Rightarrow> machine \<Rightarrow> machine" where
  "on_block_ld k s =
     (let bc0 = on_get_bc s;
          de0 = on_get_de s;
          hl0 = on_get_hl s;
          a = get_a s;
          f0 = get_f s;
          (t, s1) = on_3t_read_cycle hl0 s;
          s2 = on_5t_write_cycle de0 t s1;
          bc1 = dec16 bc0;
          t1 = (ucast t :: 32 word) + ucast a;
          f = (f0 AND (sf_mask OR zf_mask OR cf_mask)) OR
              (ucast (push_bit 4 t1) AND yf_mask) OR (ucast t1 AND xf_mask) OR
              (if bc1 \<noteq> 0 then pf_mask else 0);
          (hl1, de1) = (if block_ld_code k AND 1 \<noteq> 0 then (dec16 hl0, dec16 de0)
                        else (inc16 hl0, inc16 de0));
          s3 = set_f f (on_set_hl hl1 (on_set_de de1 (on_set_bc bc1 s2)))
      in if block_ld_code k AND 2 \<noteq> 0 \<and> bc1 \<noteq> 0 then
           (let s4 = on_5t_exec_cycle s3;
                pc0 = on_get_pc s4
            in on_set_pc (sub16 pc0 2) (on_set_memptr (inc16 pc0) s4))
         else s3)"

definition on_bit :: "nat \<Rightarrow> reg \<Rightarrow> fast_u8 \<Rightarrow> machine \<Rightarrow> machine" where
  "on_bit b r d s =
     (let (v, s1) = on_get_r r d True s;
          f0 = get_f s1;
          m = v AND push_bit b 1;
          f1 = (f0 AND cf_mask) OR hf_mask OR
               (if m \<noteq> 0 then m AND sf_mask else zf_mask OR pf_mask);
          v1 = (if get_index_rp_kind s1 \<noteq> irp_hl \<or> r = at_hl
                then get_high8 (on_get_memptr s1) else v);
          f2 = f1 OR (v1 AND (xf_mask OR yf_mask))
      in set_f f2 s1)"

definition on_call_nn :: "fast_u16 \<Rightarrow> machine \<Rightarrow> machine" where
  "on_call_nn nn s = on_call nn s"

definition on_ccf :: "machine \<Rightarrow> machine" where
  "on_ccf s =
     (let a = get_a s;
          f0 = get_f s;
          cf = (f0 AND cf_mask \<noteq> 0);
          f = (f0 AND (sf_mask OR zf_mask OR pf_mask)) OR (a AND (yf_mask OR xf_mask)) OR
              (if cf then hf_mask else 0) OR cf_ari (\<not> cf)
      in set_f f s)"

definition on_dec_r :: "reg \<Rightarrow> fast_u8 \<Rightarrow> machine \<Rightarrow> machine" where
  "on_dec_r r d s =
     (let (v0, s1) = on_get_r r d True s;
          f0 = get_f s1;
          v = dec8 v0;
          f = (f0 AND cf_mask) OR (v AND (sf_mask OR yf_mask OR xf_mask)) OR zf_ari v OR
              hf_dec v OR pf_dec v OR nf_mask
      in set_f f (on_set_r r d v s1))"

definition on_dec_rp :: "regp \<Rightarrow> machine \<Rightarrow> machine" where
  "on_dec_rp rp s = on_set_rp rp (dec16 (on_get_rp rp s)) s"

definition on_di :: "machine \<Rightarrow> machine" where
  "on_di s = on_set_iff2 False (on_set_iff1 False s)"

definition on_djnz :: "fast_u8 \<Rightarrow> machine \<Rightarrow> machine" where
  "on_djnz d s =
     (let b = dec8 (get_b s);
          s1 = set_b b s
      in if b \<noteq> 0 then on_relative_jump d s1 else s1)"

definition on_ei :: "machine \<Rightarrow> machine" where
  "on_ei s = on_disable_int (on_set_iff2 True (on_set_iff1 True s))"

definition on_ex_de_hl :: "machine \<Rightarrow> machine" where
  "on_ex_de_hl s = s\<lparr>de := hl s, hl := de s\<rparr>"

definition on_exx :: "machine \<Rightarrow> machine" where
  "on_exx s = s\<lparr>bc := alt_bc s, alt_bc := bc s,
                 de := alt_de s, alt_de := de s,
                 hl := alt_hl s, alt_hl := hl s\<rparr>"

definition on_im :: "nat \<Rightarrow> machine \<Rightarrow> machine" where
  "on_im mode s = on_set_int_mode mode s"

definition on_inc_r :: "reg \<Rightarrow> fast_u8 \<Rightarrow> machine \<Rightarrow> machine" where
  "on_inc_r r d s =
     (let (v0, s1) = on_get_r r d True s;
          f0 = get_f s1;
          v = inc8 v0;
          f = (f0 AND cf_mask) OR (v AND (sf_mask OR yf_mask OR xf_mask)) OR zf_ari v OR
              hf_inc v OR pf_inc v
      in set_f f (on_set_r r d v s1))"

definition on_inc_rp :: "regp \<Rightarrow> machine \<Rightarrow> machine" where
  "on_inc_rp rp s = on_set_rp rp (inc16 (on_get_rp rp s)) s"

definition on_jp_irp :: "machine \<Rightarrow> machine" where
  "on_jp_irp s = on_set_pc (on_get_index_rp s) s"

definition on_jp_nn :: "fast_u16 \<Rightarrow> machine \<Rightarrow> machine" where
  "on_jp_nn nn s = on_set_pc nn (on_set_memptr nn s)"

definition on_jr :: "fast_u8 \<Rightarrow> machine \<Rightarrow> machine" where
  "on_jr d s = on_relative_jump d s"

definition on_jr_cc :: "condition \<Rightarrow> fast_u8 \<Rightarrow> machine \<Rightarrow> machine" where
  "on_jr_cc cc d s = (if check_condition cc s then on_relative_jump d s else s)"

definition on_ld_i_a :: "machine \<Rightarrow> machine" where
  "on_ld_i_a s = set_i (get_a s) s"

definition on_ld_r_r :: "reg \<Rightarrow> reg \<Rightarrow> fast_u8 \<Rightarrow> machine \<Rightarrow> machine" where
  "on_ld_r_r rd rs d s = (let (v, s1) = on_get_r rs d False s in on_set_r rd d v s1)"

definition on_ld_r_n :: "reg \<Rightarrow> fast_u8 \<Rightarrow> fast_u8 \<Rightarrow> machine \<Rightarrow> machine" where
  "on_ld_r_n r d n s = on_set_r r d n s"

definition on_ld_rp_nn :: "regp \<Rightarrow> fast_u16 \<Rightarrow> machine \<Rightarrow> machine" where
  "on_ld_rp_nn rp nn s = on_set_rp rp nn s"

definition on_ld_irp_at_nn :: "fast_u16 \<Rightarrow> machine \<Rightarrow> machine" where
  "on_ld_irp_at_nn nn s =
     (let (lo, s1) = on_3t_read_cycle nn s;
          nn1 = inc16 nn;
          s2 = on_set_memptr nn1 s1;
          (hi, s3) = on_3t_read_cycle nn1 s2
      in on_set_index_rp (make16 hi lo) s3)"

definition on_ld_at_nn_irp :: "fast_u16 \<Rightarrow> machine \<Rightarrow> machine" where
  "on_ld_at_nn_irp nn s =
     (let irp = on_get_index_rp s;
          s1 = on_3t_write_cycle nn (get_low8 irp) s;
          nn1 = inc16 nn;
          s2 = on_set_memptr nn1 s1
      in on_3t_write_cycle nn1 (get_high8 irp) s2)"

definition on_ld_rp_at_nn :: "regp \<Rightarrow> fast_u16 \<Rightarrow> machine \<Rightarrow> machine" where
  "on_ld_rp_at_nn rp nn s =
     (let (lo, s1) = on_3t_read_cycle nn s;
          nn1 = inc16 nn;
          s2 = on_set_memptr nn1 s1;
          (hi, s3) = on_3t_read_cycle nn1 s2
      in on_set_rp rp (make16 hi lo) s3)"

definition on_ld_at_nn_rp :: "fast_u16 \<Rightarrow> regp \<Rightarrow> machine \<Rightarrow> machine" where
  "on_ld_at_nn_rp nn rp s =
     (let rpv = on_get_rp rp s;
          s1 = on_3t_write_cycle nn (get_low8 rpv) s;
          nn1 = inc16 nn;
          s2 = on_set_memptr nn1 s1
      in on_3t_write_cycle nn1 (get_high8 rpv) s2)"

definition on_ld_a_at_nn :: "fast_u16 \<Rightarrow> machine \<Rightarrow> machine" where
  "on_ld_a_at_nn nn s =
     (let s1 = on_set_memptr (inc16 nn) s;
          (v, s2) = on_3t_read_cycle nn s1
      in set_a v s2)"

definition on_ld_at_nn_a :: "fast_u16 \<Rightarrow> machine \<Rightarrow> machine" where
  "on_ld_at_nn_a nn s =
     (let a = get_a s;
          s1 = on_set_memptr (make16 a (inc8 (get_low8 nn))) s
      in on_3t_write_cycle nn a s1)"

definition on_ld_sp_irp :: "machine \<Rightarrow> machine" where
  "on_ld_sp_irp s = on_set_sp (on_get_index_rp s) s"

definition on_nop :: "machine \<Rightarrow> machine" where
  "on_nop s = s"

definition on_out_n_a :: "fast_u8 \<Rightarrow> machine \<Rightarrow> machine" where
  "on_out_n_a n s =
     (let a = get_a s;
          s1 = on_output_cycle (make16 a n) a s
      in on_set_memptr (make16 a (inc8 n)) s1)"

definition on_pop_rp :: "regp2 \<Rightarrow> machine \<Rightarrow> machine" where
  "on_pop_rp rp s = (let (nn, s1) = on_pop s in on_set_rp2 rp nn s1)"

definition on_push_rp :: "regp2 \<Rightarrow> machine \<Rightarrow> machine" where
  "on_push_rp rp s = on_push (on_get_rp2 rp s) s"

definition on_res :: "nat \<Rightarrow> reg \<Rightarrow> fast_u8 \<Rightarrow> machine \<Rightarrow> machine" where
  "on_res b r d s =
     (let irp = get_index_rp_kind s;
          access_r = (if irp = irp_hl then r else at_hl);
          (v0, s1) = on_get_r access_r d True s;
          v = v0 AND NOT (push_bit b 1);
          s2 = on_set_r access_r d v s1
      in if irp \<noteq> irp_hl \<and> r \<noteq> at_hl then on_set_r r 0 v s2 else s2)"

definition on_ret :: "machine \<Rightarrow> machine" where
  "on_ret s = on_return s"

definition on_ret_cc :: "condition \<Rightarrow> machine \<Rightarrow> machine" where
  "on_ret_cc cc s = (if check_condition cc s then on_return s else s)"

definition on_rrca :: "machine \<Rightarrow> machine" where
  "on_rrca s =
     (let a = ror8 (get_a s);
          f0 = get_f s;
          f = (f0 AND (sf_mask OR zf_mask OR pf_mask)) OR (a AND (yf_mask OR xf_mask)) OR
              cf_ari (a AND 0x80 \<noteq> 0)
      in set_f f (set_a a s))"

definition on_scf :: "machine \<Rightarrow> machine" where
  "on_scf s =
     (let a = get_a s;
          f0 = get_f s;
          f = (f0 AND (sf_mask OR zf_mask OR pf_mask)) OR (a AND (yf_mask OR xf_mask)) OR
              cf_mask
      in set_f f s)"

definition on_set :: "nat \<Rightarrow> reg \<Rightarrow> fast_u8 \<Rightarrow> machine \<Rightarrow> machine" where
  "on_set b r d s =
     (let irp = get_index_rp_kind s;
          access_r = (if irp = irp_hl then r else at_hl);
          (v0, s1) = on_get_r access_r d True s;
          v = v0 OR push_bit b 1;
          s2 = on_set_r access_r d v s1
      in if irp \<noteq> irp_hl \<and> r \<noteq> at_hl then on_set_r r 0 v s2 else s2)"

section \<open>The decoder (instructions_decoder)\<close>

text \<open>The opcode fields: \<open>x_mask = 0300\<close>, \<open>y_mask = 0070\<close>, \<open>z_mask = 0007\<close>,
  \<open>p_mask = 0060\<close> and \<open>q_mask = 0010\<close> in octal; the model writes them in hexadecimal
  (\<open>0xC0\<close>, \<open>0x38\<close>, \<open>0x07\<close>, \<open>0x30\<close>, \<open>0x08\<close>), and the case labels likewise.\<close>

definition get_y_part :: "fast_u8 \<Rightarrow> fast_u8" where
  "get_y_part op = drop_bit 3 (op AND 0x38)"

definition get_z_part :: "fast_u8 \<Rightarrow> fast_u8" where
  "get_z_part op = op AND 0x07"

definition get_p_part :: "fast_u8 \<Rightarrow> fast_u8" where
  "get_p_part op = drop_bit 4 (op AND 0x30)"

definition read_disp_or_null :: "bool \<Rightarrow> machine \<Rightarrow> fast_u8 \<times> machine" where
  "read_disp_or_null may_need_disp s =
     (if get_index_rp_kind s = irp_hl \<or> \<not> may_need_disp then (0, s)
      else (let (d, s1) = on_disp_read s in (d, on_5t_exec_cycle s1)))"

definition on_ed_prefix :: "machine \<Rightarrow> machine" where
  "on_ed_prefix s = s\<lparr>prefix := prefix_ed\<rparr>"

definition on_cb_prefix :: "machine \<Rightarrow> machine" where
  "on_cb_prefix s = s\<lparr>prefix := prefix_cb, next_index_rp := index_rp s\<rparr>"

definition on_prefix_reset :: "machine \<Rightarrow> machine" where
  "on_prefix_reset s = s\<lparr>prefix := prefix_none\<rparr>"

text \<open>The processor's \<open>on_set_next_index_rp\<close>: the decoder's, then \<open>on_disable_int\<close>.\<close>

definition on_set_next_index_rp :: "index_regp \<Rightarrow> machine \<Rightarrow> machine" where
  "on_set_next_index_rp irp s = on_disable_int (s\<lparr>next_index_rp := irp\<rparr>)"

definition decode_int_mode :: "fast_u8 \<Rightarrow> nat" where
  "decode_int_mode y = (let y1 = y AND 3 in if y1 < 2 then 0 else unat (y1 - 1))"

definition decode_unprefixed :: "machine \<Rightarrow> error + machine" where
  "decode_unprefixed s0 =
     (let (op, s) = on_fetch s0;
          y = get_y_part op;
          z = get_z_part op;
          p = get_p_part op
      in
      if op AND 0xC0 = 0x40 then
        (let rd = to_reg y; rs = to_reg z
         in if rd = at_hl \<and> rs = at_hl then Inl Assertion_failed
            else (let (d, s1) = read_disp_or_null (rd = at_hl \<or> rs = at_hl) s
                  in Inr (on_ld_r_r rd rs d s1)))
      else if op AND 0xC0 = 0x80 then
        (let k = to_alu y; r = to_reg z;
             (d, s1) = read_disp_or_null (r = at_hl) s
         in on_alu_r k r d s1)
      else if op AND 0xC7 = 0x04 then
        (let r = to_reg y; (d, s1) = read_disp_or_null (r = at_hl) s
         in Inr (on_inc_r r d s1))
      else if op AND 0xC7 = 0x05 then
        (let r = to_reg y; (d, s1) = read_disp_or_null (r = at_hl) s
         in Inr (on_dec_r r d s1))
      else if op AND 0xC7 = 0x06 then
        (let r = to_reg y
         in if r \<noteq> at_hl \<or> get_index_rp_kind s = irp_hl then
              (let (n, s1) = on_3t_imm8_read s in Inr (on_ld_r_n r 0 n s1))
            else
              (let (d, s1) = on_disp_read s; (n, s2) = on_5t_imm8_read s1
               in Inr (on_ld_r_n r d n s2)))
      else if op AND 0xC7 = 0xC0 then
        (let s1 = on_5t_fetch_cycle s; cc = to_condition y
         in Inr (on_ret_cc cc s1))
      else if op AND 0xC7 = 0xC6 then
        (let k = to_alu y; (n, s1) = on_3t_imm8_read s
         in on_alu_n k n s1)
      else if op AND 0xE7 = 0x20 then
        (let cc = to_condition (drop_bit 3 (op AND 0x18));
             (d, s1) = on_disp_read s
         in Inr (on_jr_cc cc d s1))
      else if op AND 0xCF = 0x01 then
        (let rp = to_regp p; (nn, s1) = on_3t_3t_imm16_read s
         in Inr (on_ld_rp_nn rp nn s1))
      else if op AND 0xCF = 0x03 then
        (let s1 = on_6t_fetch_cycle s; rp = to_regp p in Inr (on_inc_rp rp s1))
      else if op AND 0xCF = 0x09 then
        (let rp = to_regp p in Inr (on_add_irp_rp rp s))
      else if op AND 0xCF = 0x0B then
        (let s1 = on_6t_fetch_cycle s; rp = to_regp p in Inr (on_dec_rp rp s1))
      else if op AND 0xCF = 0xC1 then
        (let rp = to_regp2 p in Inr (on_pop_rp rp s))
      else if op AND 0xCF = 0xC5 then
        (let s1 = on_5t_fetch_cycle s; rp = to_regp2 p in Inr (on_push_rp rp s1))
      else if op = 0x00 then Inr (on_nop s)
      else if op = 0x0F then Inr (on_rrca s)
      else if op = 0x10 then
        (let s1 = on_5t_fetch_cycle s; (d, s2) = on_disp_read s1 in Inr (on_djnz d s2))
      else if op = 0x18 then
        (let (d, s1) = on_disp_read s in Inr (on_jr d s1))
      else if op = 0x22 then
        (let (nn, s1) = on_3t_3t_imm16_read s in Inr (on_ld_at_nn_irp nn s1))
      else if op = 0x2A then
        (let (nn, s1) = on_3t_3t_imm16_read s in Inr (on_ld_irp_at_nn nn s1))
      else if op = 0x32 then
        (let (nn, s1) = on_3t_3t_imm16_read s in Inr (on_ld_at_nn_a nn s1))
      else if op = 0x37 then Inr (on_scf s)
      else if op = 0x3A then
        (let (nn, s1) = on_3t_3t_imm16_read s in Inr (on_ld_a_at_nn nn s1))
      else if op = 0x3F then Inr (on_ccf s)
      else if op = 0xC3 then
        (let (nn, s1) = on_3t_3t_imm16_read s in Inr (on_jp_nn nn s1))
      else if op = 0xC9 then Inr (on_ret s)
      else if op = 0xCB then Inr (on_cb_prefix s)
      else if op = 0xCD then
        (let (nn, s1) = on_3t_4t_imm16_read s in Inr (on_call_nn nn s1))
      else if op = 0xD3 then
        (let (n, s1) = on_3t_imm8_read s in Inr (on_out_n_a n s1))
      else if op = 0xD9 then Inr (on_exx s)
      else if op = 0xE9 then Inr (on_jp_irp s)
      else if op = 0xEB then Inr (on_ex_de_hl s)
      else if op = 0xED then Inr (on_ed_prefix s)
      else if op = 0xF3 then Inr (on_di s)
      else if op = 0xF9 then
        (let s1 = on_6t_fetch_cycle s in Inr (on_ld_sp_irp s1))
      else if op = 0xFB then Inr (on_ei s)
      else if op = 0xFD then Inr (on_set_next_index_rp irp_iy s)
      else Inl (Unknown_opcode op (last_read_addr s)))"

text \<open>The \<open>prefix_reset_guard\<close> of the two prefixed decoders runs \<open>on_prefix_reset\<close>
  when the decoder returns; \<open>std::abort()\<close> does not return.\<close>

definition prefix_reset_guard :: "error + machine \<Rightarrow> error + machine" where
  "prefix_reset_guard res = (case res of Inl e \<Rightarrow> Inl e | Inr s \<Rightarrow> Inr (on_prefix_reset s))"

definition decode_cb_prefixed :: "machine \<Rightarrow> error + machine" where
  "decode_cb_prefixed s0 = prefix_reset_guard
     (let irp = get_index_rp_kind s0;
          (d, s1) = (if irp \<noteq> irp_hl then on_disp_read s0 else (0, s0));
          (op, s2) = on_fetch s1;
          s = (if irp \<noteq> irp_hl then on_5t_fetch_cycle s2 else s2);
          y = get_y_part op;
          z = get_z_part op;
          b = unat y;
          r = to_reg z
      in
      if op AND 0xC0 = 0x40 then Inr (on_bit b r d s)
      else if op AND 0xC0 = 0x80 then Inr (on_res b r d s)
      else if op AND 0xC0 = 0xC0 then Inr (on_set b r d s)
      else Inl (Unknown_cb_prefixed_opcode op (last_read_addr s)))"

definition decode_ed_prefixed :: "machine \<Rightarrow> error + machine" where
  "decode_ed_prefixed s0 = prefix_reset_guard
     (let (op, s) = on_fetch s0;
          y = get_y_part op;
          p = get_p_part op
      in
      if op AND 0xC7 = 0x42 then
        (let rp = to_regp p
         in if op AND 0x08 \<noteq> 0 then Inr (on_adc_hl_rp rp s) else Inr (on_sbc_hl_rp rp s))
      else if op AND 0xC7 = 0x43 then
        (let rp = to_regp p; (nn, s1) = on_3t_3t_imm16_read s
         in if op AND 0x08 \<noteq> 0 then Inr (on_ld_rp_at_nn rp nn s1)
            else Inr (on_ld_at_nn_rp nn rp s1))
      else if op AND 0xC7 = 0x46 then Inr (on_im (decode_int_mode y) s)
      else if op AND 0xC7 = 0x80 then
        (if y < 4 then Inr (on_noni_ed op s)
         else (let k = to_block_ld (y - 4) in Inr (on_block_ld k s)))
      else if op = 0x47 then
        (let s1 = on_5t_fetch_cycle s in Inr (on_ld_i_a s1))
      else Inl (Unknown_ed_prefixed_opcode op (last_read_addr s)))"

definition on_decode :: "machine \<Rightarrow> error + machine" where
  "on_decode s0 =
     (let s = s0\<lparr>index_rp := next_index_rp s0, next_index_rp := irp_hl\<rparr>
      in case prefix s of
           prefix_none \<Rightarrow> decode_unprefixed s
         | prefix_cb \<Rightarrow> decode_cb_prefixed s
         | prefix_ed \<Rightarrow> decode_ed_prefixed s)"

text \<open>\<open>step()\<close> is \<open>on_step()\<close>, which is \<open>decode()\<close>, which is \<open>on_decode()\<close>.\<close>

definition on_step :: "machine \<Rightarrow> error + machine" where
  "on_step s = on_decode s"

section \<open>Running the machine\<close>

text \<open>Calling \<open>step()\<close> \<open>n\<close> times; an abort ends the run.\<close>

fun steps :: "nat \<Rightarrow> machine \<Rightarrow> error + machine" where
  "steps 0 s = Inr s"
| "steps (Suc n) s = (case on_step s of Inl e \<Rightarrow> Inl e | Inr s1 \<Rightarrow> steps n s1)"

text \<open>Reading a component of the machine a run has left, if the run returned.\<close>

definition observe :: "(machine \<Rightarrow> 'a) \<Rightarrow> error + machine \<Rightarrow> 'a option" where
  "observe f res = (case res of Inl e \<Rightarrow> None | Inr s \<Rightarrow> Some (f s))"

text \<open>The decoder state together with \<open>disable_int\<close>: what decides how the next
  \<open>step()\<close> decodes and whether an interrupt may come before it.\<close>

definition control :: "machine \<Rightarrow> index_regp \<times> index_regp \<times> instruction_prefix \<times> bool" where
  "control s = (index_rp s, next_index_rp s, prefix s, disable_int s)"

section \<open>The block load as the spec words it\<close>

text \<open>The spec's block-load property speaks of \<open>K\<close> memory copies from \<open>(HL)\<close> to \<open>(DE)\<close>,
  both addresses going up by one after each copy.  \<open>ldir_copy k src dst m\<close> is the
  memory after \<open>k\<close> such copies, written from those words and not from \<open>on_block_ld\<close>.\<close>

fun ldir_copy ::
  "nat \<Rightarrow> fast_u16 \<Rightarrow> fast_u16 \<Rightarrow> (fast_u16 \<Rightarrow> fast_u8) \<Rightarrow> (fast_u16 \<Rightarrow> fast_u8)" where
  "ldir_copy 0 src dst m = m"
| "ldir_copy (Suc k) src dst m = ldir_copy k (src + 1) (dst + 1) (m(dst := m src))"

section \<open>Concrete machines\<close>

text \<open>Scenario 5 of the spec: \<open>LD HL,0x8000; ADD HL,HL\<close> at address 0 of a machine
  fresh from reset.\<close>

definition add_hl_hl_machine :: machine where
  "add_hl_hl_machine =
     reset_machine ((\<lambda>a. 0)(0 := 0x21, 1 := 0x00, 2 := 0x80, 3 := 0x29))"



text \<open>\<open>EI\<close> at address 0, followed by \<open>NOP\<close>s.\<close>

definition ei_nop_machine :: machine where
  "ei_nop_machine = reset_machine ((\<lambda>a. 0)(0 := 0xFB))"

text \<open>\<open>FD\<close> at address 0, followed by \<open>NOP\<close>s.\<close>

definition fd_nop_machine :: machine where
  "fd_nop_machine = reset_machine ((\<lambda>a. 0)(0 := 0xFD))"

text \<open>The bytes \<open>ED 00\<close> and \<open>ED 80\<close> at address 0.\<close>

definition ed_00_machine :: machine where
  "ed_00_machine = reset_machine ((\<lambda>a. 0)(0 := 0xED, 1 := 0x00))"

definition ed_80_machine :: machine where
  "ed_80_machine = reset_machine ((\<lambda>a. 0)(0 := 0xED, 1 := 0x80))"

text \<open>The bytes \<open>FD CB\<close> at address 0: an index prefix, then the CB prefix.\<close>

definition fd_cb_machine :: machine where
  "fd_cb_machine = reset_machine ((\<lambda>a. 0)(0 := 0xFD, 1 := 0xCB))"

text \<open>\<open>LD HL,0x0100; BIT 0,(HL)\<close> at address 0, with the byte \<open>0x28\<close> at \<open>0x100\<close>.\<close>

definition bit_at_hl_machine :: machine where
  "bit_at_hl_machine =
     reset_machine ((\<lambda>a. 0)(0 := 0x21, 1 := 0x00, 2 := 0x01, 3 := 0xCB, 4 := 0x46,
                             0x100 := 0x28))"

text \<open>Scenario 6 of the spec: \<open>BIT 0,A\<close> with \<open>A = 0x01\<close>.\<close>

definition bit_0_a_machine :: machine where
  "bit_0_a_machine = (reset_machine ((\<lambda>a. 0)(0 := 0xCB, 1 := 0x47)))\<lparr>af := 0x0100\<rparr>"

text \<open>A machine fresh from reset with nothing but \<open>NOP\<close>s in memory.\<close>

definition nop_machine :: machine where
  "nop_machine = reset_machine (\<lambda>a. 0)"

text \<open>\<open>BIT 0,(IY+5)\<close> as \<open>on_bit\<close> meets it: index IY in force, \<open>IY = 0x2800\<close> and the
  byte \<open>0x01\<close> at \<open>0x2805\<close>.\<close>

definition bit_iy_machine :: machine where
  "bit_iy_machine =
     (reset_machine ((\<lambda>a. 0)(0x2805 := 0x01)))\<lparr>index_rp := irp_iy, iy := 0x2800\<rparr>"


section \<open>Bytes, pairs and sign extension\<close>

lemma get_high8_make16 [simp]: "get_high8 (make16 h l) = h"
  unfolding get_high8_def make16_def
  by (rule bit_word_eqI) (auto simp add: bit_simps dest: bit_imp_le_length)

lemma get_low8_make16 [simp]: "get_low8 (make16 h l) = l"
  unfolding get_low8_def make16_def
  by (rule bit_word_eqI) (auto simp add: bit_simps)

lemma make16_high_low [simp]: "make16 (get_high8 n) (get_low8 n) = n"
  unfolding get_high8_def get_low8_def make16_def
  by (rule bit_word_eqI) (auto simp add: bit_simps)

lemma test_bit_mask8:
  fixes w :: fast_u8
  shows "(w AND 0x01 = 0) = (\<not> bit w 0)" "(w AND 0x02 = 0) = (\<not> bit w 1)"
    "(w AND 0x04 = 0) = (\<not> bit w 2)" "(w AND 0x08 = 0) = (\<not> bit w 3)"
    "(w AND 0x10 = 0) = (\<not> bit w 4)" "(w AND 0x20 = 0) = (\<not> bit w 5)"
    "(w AND 0x40 = 0) = (\<not> bit w 6)" "(w AND 0x80 = 0) = (\<not> bit w 7)"
  using and_exp_eq_0_iff_not_bit [of w 0] and_exp_eq_0_iff_not_bit [of w 1]
    and_exp_eq_0_iff_not_bit [of w 2] and_exp_eq_0_iff_not_bit [of w 3]
    and_exp_eq_0_iff_not_bit [of w 4] and_exp_eq_0_iff_not_bit [of w 5]
    and_exp_eq_0_iff_not_bit [of w 6] and_exp_eq_0_iff_not_bit [of w 7]
  by simp_all

lemma neg8_eq: "neg8 d = - d"
proof -
  have "(0xFF :: 8 word) = - 1" by simp
  then have "d XOR 0xFF = NOT d" by (simp only: bit.xor_one_right)
  then show ?thesis by (simp only: neg8_def minus_eq_not_plus_1)
qed

lemma sint8: "sint (d :: 8 word) = uint d - (if bit d 7 then 256 else 0)"
proof -
  have "take_bit 8 (uint d) = uint d"
    using uint_bounded [of d] by (simp add: take_bit_int_eq_self)
  then show ?thesis
    by (simp add: sint_uint signed_take_bit_eq_take_bit_minus bit_uint_iff)
qed

lemma scast_pos: "\<not> bit d 7 \<Longrightarrow> (scast (d :: 8 word) :: 16 word) = ucast d"
proof -
  assume "\<not> bit d 7"
  then have "sint d = uint d" by (simp add: sint8)
  then have "(word_of_int (sint d) :: 16 word) = word_of_int (uint d)" by simp
  then show ?thesis by (simp only: of_int_sint of_int_uint)
qed

lemma scast_neg: "bit d 7 \<Longrightarrow> (scast (d :: 8 word) :: 16 word) = - ucast (- d)"
proof -
  assume b: "bit d 7"
  then have s: "sint d = uint d - 256" by (simp add: sint8)
  from b have "d \<noteq> 0" by auto
  then have "uint d \<noteq> 0" by (simp add: uint_0_iff)
  moreover have "uint d < 256" using uint_bounded [of d] by simp
  moreover have "0 \<le> uint d" by simp
  ultimately have u: "uint (- d) = 256 - uint d"
    by (simp add: uint_word_ariths zmod_zminus1_eq_if)
  have "(scast d :: 16 word) = word_of_int (sint d)" by (simp only: of_int_sint)
  also have "\<dots> = word_of_int (- (256 - uint d))" using s by simp
  also have "\<dots> = - word_of_int (uint (- d))" using u by simp
  also have "\<dots> = - ucast (- d)" by (simp only: of_int_uint)
  finally show ?thesis .
qed

text \<open>The displacement target is the base plus the sign-extended displacement.\<close>

lemma get_disp_target_scast: "get_disp_target base d = base + scast d"
  by (simp add: get_disp_target_def get_sign8_def test_bit_mask8 add16_def sub16_def
      neg8_eq scast_pos scast_neg)

lemmas get_reg_defs = get_b_def get_c_def get_d_def get_e_def get_h_def get_l_def
  get_a_def get_f_def get_ixh_def get_ixl_def get_iyh_def get_iyl_def get_i_def get_r_reg_def

lemmas set_reg_defs = set_b_def set_c_def set_d_def set_e_def set_h_def set_l_def
  set_a_def set_f_def set_ixh_def set_ixl_def set_iyh_def set_iyl_def set_i_def

lemma on_get_pair:
  "on_get_af s = af s" "on_get_hl s = hl s" "on_get_bc s = bc s" "on_get_de s = de s"
  "on_get_ix s = ix s" "on_get_iy s = iy s"
  by (simp_all add: on_get_af_def on_get_hl_def on_get_bc_def on_get_de_def on_get_ix_def
      on_get_iy_def get_reg_defs)

lemma on_set_pair:
  "on_set_af nn s = s\<lparr>af := nn\<rparr>" "on_set_hl nn s = s\<lparr>hl := nn\<rparr>"
  "on_set_bc nn s = s\<lparr>bc := nn\<rparr>" "on_set_de nn s = s\<lparr>de := nn\<rparr>"
  "on_set_ix nn s = s\<lparr>ix := nn\<rparr>" "on_set_iy nn s = s\<lparr>iy := nn\<rparr>"
  by (simp_all add: on_set_af_def on_set_hl_def on_set_bc_def on_set_de_def on_set_ix_def
      on_set_iy_def get_reg_defs set_reg_defs)

lemma get_set_af [simp]:
  "get_a (set_f f s) = get_a s" "get_f (set_f f s) = f"
  "get_a (set_a a s) = a" "get_f (set_a a s) = get_f s"
  by (simp_all add: get_a_def get_f_def set_a_def set_f_def)

lemmas cycle_defs = on_access_def on_access_assign_def tick_def on_fetch_cycle_def
  on_5t_fetch_cycle_def on_6t_fetch_cycle_def on_3t_read_cycle_def on_4t_read_cycle_def
  on_5t_read_cycle_def on_disp_read_cycle_def on_3t_write_cycle_def on_5t_write_cycle_def
  on_3t_exec_cycle_def on_4t_exec_cycle_def on_5t_exec_cycle_def on_output_cycle_def
  on_fetch_def on_3t_imm8_read_def on_5t_imm8_read_def on_3t_3t_imm16_read_def
  on_3t_4t_imm16_read_def on_disp_read_def on_get_pc_def on_set_pc_def on_get_sp_def
  on_set_sp_def on_get_memptr_def on_set_memptr_def inc16_def dec16_def add16_def sub16_def

section \<open>No handler but the prefixes and EI touches the decoder state or disable_int\<close>

lemma control_update [simp]:
  "control (s\<lparr>last_read_addr := a\<rparr>) = control s"
  "control (s\<lparr>bc := a\<rparr>) = control s"
  "control (s\<lparr>de := a\<rparr>) = control s"
  "control (s\<lparr>hl := a\<rparr>) = control s"
  "control (s\<lparr>af := a\<rparr>) = control s"
  "control (s\<lparr>ix := a\<rparr>) = control s"
  "control (s\<lparr>iy := a\<rparr>) = control s"
  "control (s\<lparr>alt_bc := a\<rparr>) = control s"
  "control (s\<lparr>alt_de := a\<rparr>) = control s"
  "control (s\<lparr>alt_hl := a\<rparr>) = control s"
  "control (s\<lparr>pc := a\<rparr>) = control s"
  "control (s\<lparr>sp := a\<rparr>) = control s"
  "control (s\<lparr>ir := a\<rparr>) = control s"
  "control (s\<lparr>memptr := a\<rparr>) = control s"
  "control (s\<lparr>iff1 := b\<rparr>) = control s"
  "control (s\<lparr>iff2 := b\<rparr>) = control s"
  "control (s\<lparr>int_mode := m\<rparr>) = control s"
  "control (s\<lparr>image_bytes := img\<rparr>) = control s"
  "control (s\<lparr>ticks := t\<rparr>) = control s"
  by (simp_all add: control_def)

lemma control_eq: "control s = (index_rp s, next_index_rp s, prefix s, disable_int s)"
  by (simp add: control_def)

lemma control_fields:
  "control s' = control s \<Longrightarrow> index_rp s' = index_rp s \<and> next_index_rp s' = next_index_rp s
     \<and> prefix s' = prefix s \<and> disable_int s' = disable_int s"
  by (simp add: control_def)

lemma control_tick [simp]: "control (tick t s) = control s"
  by (simp add: tick_def)

lemma control_on_access_assign [simp]: "control (on_access_assign addr n s) = control s"
  by (simp add: on_access_assign_def)

lemma control_set_b [simp]: "control (set_b n s) = control s"
  by (simp add: set_b_def)

lemma control_set_c [simp]: "control (set_c n s) = control s"
  by (simp add: set_c_def)

lemma control_set_d [simp]: "control (set_d n s) = control s"
  by (simp add: set_d_def)

lemma control_set_e [simp]: "control (set_e n s) = control s"
  by (simp add: set_e_def)

lemma control_set_h [simp]: "control (set_h n s) = control s"
  by (simp add: set_h_def)

lemma control_set_l [simp]: "control (set_l n s) = control s"
  by (simp add: set_l_def)

lemma control_set_a [simp]: "control (set_a n s) = control s"
  by (simp add: set_a_def)

lemma control_set_f [simp]: "control (set_f n s) = control s"
  by (simp add: set_f_def)

lemma control_set_ixh [simp]: "control (set_ixh n s) = control s"
  by (simp add: set_ixh_def)

lemma control_set_ixl [simp]: "control (set_ixl n s) = control s"
  by (simp add: set_ixl_def)

lemma control_set_iyh [simp]: "control (set_iyh n s) = control s"
  by (simp add: set_iyh_def)

lemma control_set_iyl [simp]: "control (set_iyl n s) = control s"
  by (simp add: set_iyl_def)

lemma control_set_i [simp]: "control (set_i n s) = control s"
  by (simp add: set_i_def)

lemma control_on_set_sp [simp]: "control (on_set_sp nn s) = control s"
  by (simp add: on_set_sp_def)

lemma control_on_set_pc [simp]: "control (on_set_pc nn s) = control s"
  by (simp add: on_set_pc_def)

lemma control_on_set_memptr [simp]: "control (on_set_memptr nn s) = control s"
  by (simp add: on_set_memptr_def)

lemma control_on_set_iff1 [simp]: "control (on_set_iff1 v s) = control s"
  by (simp add: on_set_iff1_def)

lemma control_on_set_iff2 [simp]: "control (on_set_iff2 v s) = control s"
  by (simp add: on_set_iff2_def)

lemma control_on_set_int_mode [simp]: "control (on_set_int_mode m s) = control s"
  by (simp add: on_set_int_mode_def)

lemma control_on_set_af [simp]: "control (on_set_af nn s) = control s"
  by (simp add: on_set_af_def Let_def split_def split: index_regp.splits regp.splits regp2.splits reg.splits)

lemma control_on_set_hl [simp]: "control (on_set_hl nn s) = control s"
  by (simp add: on_set_hl_def Let_def split_def split: index_regp.splits regp.splits regp2.splits reg.splits)

lemma control_on_set_bc [simp]: "control (on_set_bc nn s) = control s"
  by (simp add: on_set_bc_def Let_def split_def split: index_regp.splits regp.splits regp2.splits reg.splits)

lemma control_on_set_de [simp]: "control (on_set_de nn s) = control s"
  by (simp add: on_set_de_def Let_def split_def split: index_regp.splits regp.splits regp2.splits reg.splits)

lemma control_on_set_ix [simp]: "control (on_set_ix nn s) = control s"
  by (simp add: on_set_ix_def Let_def split_def split: index_regp.splits regp.splits regp2.splits reg.splits)

lemma control_on_set_iy [simp]: "control (on_set_iy nn s) = control s"
  by (simp add: on_set_iy_def Let_def split_def split: index_regp.splits regp.splits regp2.splits reg.splits)

lemma control_on_set_index_rp [simp]: "control (on_set_index_rp nn s) = control s"
  by (simp add: on_set_index_rp_def Let_def split_def split: index_regp.splits regp.splits regp2.splits reg.splits)

lemma control_on_set_rp [simp]: "control (on_set_rp rp nn s) = control s"
  by (simp add: on_set_rp_def Let_def split_def split: index_regp.splits regp.splits regp2.splits reg.splits)

lemma control_on_set_rp2 [simp]: "control (on_set_rp2 rp nn s) = control s"
  by (simp add: on_set_rp2_def Let_def split_def split: index_regp.splits regp.splits regp2.splits reg.splits)

lemma control_on_5t_fetch_cycle [simp]: "control (on_5t_fetch_cycle s) = control s"
  by (simp add: on_5t_fetch_cycle_def Let_def split_def split: index_regp.splits regp.splits regp2.splits reg.splits)

lemma control_on_6t_fetch_cycle [simp]: "control (on_6t_fetch_cycle s) = control s"
  by (simp add: on_6t_fetch_cycle_def Let_def split_def split: index_regp.splits regp.splits regp2.splits reg.splits)

lemma control_on_3t_write_cycle [simp]: "control (on_3t_write_cycle addr n s) = control s"
  by (simp add: on_3t_write_cycle_def Let_def split_def split: index_regp.splits regp.splits regp2.splits reg.splits)

lemma control_on_5t_write_cycle [simp]: "control (on_5t_write_cycle addr n s) = control s"
  by (simp add: on_5t_write_cycle_def Let_def split_def split: index_regp.splits regp.splits regp2.splits reg.splits)

lemma control_on_3t_exec_cycle [simp]: "control (on_3t_exec_cycle s) = control s"
  by (simp add: on_3t_exec_cycle_def Let_def split_def split: index_regp.splits regp.splits regp2.splits reg.splits)

lemma control_on_4t_exec_cycle [simp]: "control (on_4t_exec_cycle s) = control s"
  by (simp add: on_4t_exec_cycle_def Let_def split_def split: index_regp.splits regp.splits regp2.splits reg.splits)

lemma control_on_5t_exec_cycle [simp]: "control (on_5t_exec_cycle s) = control s"
  by (simp add: on_5t_exec_cycle_def Let_def split_def split: index_regp.splits regp.splits regp2.splits reg.splits)

lemma control_on_output_cycle [simp]: "control (on_output_cycle addr b s) = control s"
  by (simp add: on_output_cycle_def Let_def split_def split: index_regp.splits regp.splits regp2.splits reg.splits)

lemma control_on_fetch_cycle [simp]: "control (snd (on_fetch_cycle addr s)) = control s"
  by (simp add: on_fetch_cycle_def Let_def split_def split: index_regp.splits regp.splits regp2.splits reg.splits)

lemma control_on_3t_read_cycle [simp]: "control (snd (on_3t_read_cycle addr s)) = control s"
  by (simp add: on_3t_read_cycle_def Let_def split_def split: index_regp.splits regp.splits regp2.splits reg.splits)

lemma control_on_4t_read_cycle [simp]: "control (snd (on_4t_read_cycle addr s)) = control s"
  by (simp add: on_4t_read_cycle_def Let_def split_def split: index_regp.splits regp.splits regp2.splits reg.splits)

lemma control_on_5t_read_cycle [simp]: "control (snd (on_5t_read_cycle addr s)) = control s"
  by (simp add: on_5t_read_cycle_def Let_def split_def split: index_regp.splits regp.splits regp2.splits reg.splits)

lemma control_on_disp_read_cycle [simp]: "control (snd (on_disp_read_cycle addr s)) = control s"
  by (simp add: on_disp_read_cycle_def Let_def split_def split: index_regp.splits regp.splits regp2.splits reg.splits)

lemma control_on_fetch [simp]: "control (snd (on_fetch s)) = control s"
  by (simp add: on_fetch_def Let_def split_def split: index_regp.splits regp.splits regp2.splits reg.splits)

lemma control_on_3t_imm8_read [simp]: "control (snd (on_3t_imm8_read s)) = control s"
  by (simp add: on_3t_imm8_read_def Let_def split_def split: index_regp.splits regp.splits regp2.splits reg.splits)

lemma control_on_5t_imm8_read [simp]: "control (snd (on_5t_imm8_read s)) = control s"
  by (simp add: on_5t_imm8_read_def Let_def split_def split: index_regp.splits regp.splits regp2.splits reg.splits)

lemma control_on_3t_3t_imm16_read [simp]: "control (snd (on_3t_3t_imm16_read s)) = control s"
  by (simp add: on_3t_3t_imm16_read_def Let_def split_def split: index_regp.splits regp.splits regp2.splits reg.splits)

lemma control_on_3t_4t_imm16_read [simp]: "control (snd (on_3t_4t_imm16_read s)) = control s"
  by (simp add: on_3t_4t_imm16_read_def Let_def split_def split: index_regp.splits regp.splits regp2.splits reg.splits)

lemma control_on_disp_read [simp]: "control (snd (on_disp_read s)) = control s"
  by (simp add: on_disp_read_def Let_def split_def split: index_regp.splits regp.splits regp2.splits reg.splits)

lemma control_read_at_disp [simp]: "control (snd (read_at_disp d l s)) = control s"
  by (simp add: read_at_disp_def Let_def split_def split: index_regp.splits regp.splits regp2.splits reg.splits)

lemma control_write_at_disp [simp]: "control (write_at_disp d n s) = control s"
  by (simp add: write_at_disp_def Let_def split_def split: index_regp.splits regp.splits regp2.splits reg.splits)

lemma control_on_get_r [simp]: "control (snd (on_get_r r d l s)) = control s"
  by (simp add: on_get_r_def Let_def split_def split: index_regp.splits regp.splits regp2.splits reg.splits)

lemma control_on_set_r [simp]: "control (on_set_r r d n s) = control s"
  by (simp add: on_set_r_def Let_def split_def split: index_regp.splits regp.splits regp2.splits reg.splits)

lemma control_read_disp_or_null [simp]: "control (snd (read_disp_or_null m s)) = control s"
  by (simp add: read_disp_or_null_def Let_def split_def split: index_regp.splits regp.splits regp2.splits reg.splits)

lemma control_on_noni_ed [simp]: "control (on_noni_ed op s) = control s"
  by (simp add: on_noni_ed_def Let_def split_def split: index_regp.splits regp.splits regp2.splits reg.splits)

lemma control_on_push [simp]: "control (on_push nn s) = control s"
  by (simp add: on_push_def Let_def split_def split: index_regp.splits regp.splits regp2.splits reg.splits)

lemma control_on_pop [simp]: "control (snd (on_pop s)) = control s"
  by (simp add: on_pop_def Let_def split_def split: index_regp.splits regp.splits regp2.splits reg.splits)

lemma control_on_call [simp]: "control (on_call nn s) = control s"
  by (simp add: on_call_def Let_def split_def split: index_regp.splits regp.splits regp2.splits reg.splits)

lemma control_on_return [simp]: "control (on_return s) = control s"
  by (simp add: on_return_def Let_def split_def split: index_regp.splits regp.splits regp2.splits reg.splits)

lemma control_on_relative_jump [simp]: "control (on_relative_jump d s) = control s"
  by (simp add: on_relative_jump_def Let_def split_def split: index_regp.splits regp.splits regp2.splits reg.splits)

lemma control_on_add_irp_rp [simp]: "control (on_add_irp_rp rp s) = control s"
  by (simp add: on_add_irp_rp_def Let_def split_def split: index_regp.splits regp.splits regp2.splits reg.splits)

lemma control_on_adc_hl_rp [simp]: "control (on_adc_hl_rp rp s) = control s"
  by (simp add: on_adc_hl_rp_def Let_def split_def split: index_regp.splits regp.splits regp2.splits reg.splits)

lemma control_on_sbc_hl_rp [simp]: "control (on_sbc_hl_rp rp s) = control s"
  by (simp add: on_sbc_hl_rp_def Let_def split_def split: index_regp.splits regp.splits regp2.splits reg.splits)

lemma control_on_block_ld [simp]: "control (on_block_ld k s) = control s"
  by (simp add: on_block_ld_def Let_def split_def split: index_regp.splits regp.splits regp2.splits reg.splits)

lemma control_on_bit [simp]: "control (on_bit b r d s) = control s"
  by (simp add: on_bit_def Let_def split_def split: index_regp.splits regp.splits regp2.splits reg.splits)

lemma control_on_call_nn [simp]: "control (on_call_nn nn s) = control s"
  by (simp add: on_call_nn_def Let_def split_def split: index_regp.splits regp.splits regp2.splits reg.splits)

lemma control_on_ccf [simp]: "control (on_ccf s) = control s"
  by (simp add: on_ccf_def Let_def split_def split: index_regp.splits regp.splits regp2.splits reg.splits)

lemma control_on_dec_r [simp]: "control (on_dec_r r d s) = control s"
  by (simp add: on_dec_r_def Let_def split_def split: index_regp.splits regp.splits regp2.splits reg.splits)

lemma control_on_dec_rp [simp]: "control (on_dec_rp rp s) = control s"
  by (simp add: on_dec_rp_def Let_def split_def split: index_regp.splits regp.splits regp2.splits reg.splits)

lemma control_on_di [simp]: "control (on_di s) = control s"
  by (simp add: on_di_def Let_def split_def split: index_regp.splits regp.splits regp2.splits reg.splits)

lemma control_on_djnz [simp]: "control (on_djnz d s) = control s"
  by (simp add: on_djnz_def Let_def split_def split: index_regp.splits regp.splits regp2.splits reg.splits)

lemma control_on_ex_de_hl [simp]: "control (on_ex_de_hl s) = control s"
  by (simp add: on_ex_de_hl_def Let_def split_def split: index_regp.splits regp.splits regp2.splits reg.splits)

lemma control_on_exx [simp]: "control (on_exx s) = control s"
  by (simp add: on_exx_def Let_def split_def split: index_regp.splits regp.splits regp2.splits reg.splits)

lemma control_on_im [simp]: "control (on_im m s) = control s"
  by (simp add: on_im_def Let_def split_def split: index_regp.splits regp.splits regp2.splits reg.splits)

lemma control_on_inc_r [simp]: "control (on_inc_r r d s) = control s"
  by (simp add: on_inc_r_def Let_def split_def split: index_regp.splits regp.splits regp2.splits reg.splits)

lemma control_on_inc_rp [simp]: "control (on_inc_rp rp s) = control s"
  by (simp add: on_inc_rp_def Let_def split_def split: index_regp.splits regp.splits regp2.splits reg.splits)

lemma control_on_jp_irp [simp]: "control (on_jp_irp s) = control s"
  by (simp add: on_jp_irp_def Let_def split_def split: index_regp.splits regp.splits regp2.splits reg.splits)

lemma control_on_jp_nn [simp]: "control (on_jp_nn nn s) = control s"
  by (simp add: on_jp_nn_def Let_def split_def split: index_regp.splits regp.splits regp2.splits reg.splits)

lemma control_on_jr [simp]: "control (on_jr d s) = control s"
  by (simp add: on_jr_def Let_def split_def split: index_regp.splits regp.splits regp2.splits reg.splits)

lemma control_on_jr_cc [simp]: "control (on_jr_cc cc d s) = control s"
  by (simp add: on_jr_cc_def Let_def split_def split: index_regp.splits regp.splits regp2.splits reg.splits)

lemma control_on_ld_i_a [simp]: "control (on_ld_i_a s) = control s"
  by (simp add: on_ld_i_a_def Let_def split_def split: index_regp.splits regp.splits regp2.splits reg.splits)

lemma control_on_ld_r_r [simp]: "control (on_ld_r_r rd rs d s) = control s"
  by (simp add: on_ld_r_r_def Let_def split_def split: index_regp.splits regp.splits regp2.splits reg.splits)

lemma control_on_ld_r_n [simp]: "control (on_ld_r_n r d n s) = control s"
  by (simp add: on_ld_r_n_def Let_def split_def split: index_regp.splits regp.splits regp2.splits reg.splits)

lemma control_on_ld_rp_nn [simp]: "control (on_ld_rp_nn rp nn s) = control s"
  by (simp add: on_ld_rp_nn_def Let_def split_def split: index_regp.splits regp.splits regp2.splits reg.splits)

lemma control_on_ld_irp_at_nn [simp]: "control (on_ld_irp_at_nn nn s) = control s"
  by (simp add: on_ld_irp_at_nn_def Let_def split_def split: index_regp.splits regp.splits regp2.splits reg.splits)

lemma control_on_ld_at_nn_irp [simp]: "control (on_ld_at_nn_irp nn s) = control s"
  by (simp add: on_ld_at_nn_irp_def Let_def split_def split: index_regp.splits regp.splits regp2.splits reg.splits)

lemma control_on_ld_rp_at_nn [simp]: "control (on_ld_rp_at_nn rp nn s) = control s"
  by (simp add: on_ld_rp_at_nn_def Let_def split_def split: index_regp.splits regp.splits regp2.splits reg.splits)

lemma control_on_ld_at_nn_rp [simp]: "control (on_ld_at_nn_rp nn rp s) = control s"
  by (simp add: on_ld_at_nn_rp_def Let_def split_def split: index_regp.splits regp.splits regp2.splits reg.splits)

lemma control_on_ld_a_at_nn [simp]: "control (on_ld_a_at_nn nn s) = control s"
  by (simp add: on_ld_a_at_nn_def Let_def split_def split: index_regp.splits regp.splits regp2.splits reg.splits)

lemma control_on_ld_at_nn_a [simp]: "control (on_ld_at_nn_a nn s) = control s"
  by (simp add: on_ld_at_nn_a_def Let_def split_def split: index_regp.splits regp.splits regp2.splits reg.splits)

lemma control_on_ld_sp_irp [simp]: "control (on_ld_sp_irp s) = control s"
  by (simp add: on_ld_sp_irp_def Let_def split_def split: index_regp.splits regp.splits regp2.splits reg.splits)

lemma control_on_nop [simp]: "control (on_nop s) = control s"
  by (simp add: on_nop_def Let_def split_def split: index_regp.splits regp.splits regp2.splits reg.splits)

lemma control_on_out_n_a [simp]: "control (on_out_n_a n s) = control s"
  by (simp add: on_out_n_a_def Let_def split_def split: index_regp.splits regp.splits regp2.splits reg.splits)

lemma control_on_pop_rp [simp]: "control (on_pop_rp rp s) = control s"
  by (simp add: on_pop_rp_def Let_def split_def split: index_regp.splits regp.splits regp2.splits reg.splits)

lemma control_on_push_rp [simp]: "control (on_push_rp rp s) = control s"
  by (simp add: on_push_rp_def Let_def split_def split: index_regp.splits regp.splits regp2.splits reg.splits)

lemma control_on_res [simp]: "control (on_res b r d s) = control s"
  by (simp add: on_res_def Let_def split_def split: index_regp.splits regp.splits regp2.splits reg.splits)

lemma control_on_ret [simp]: "control (on_ret s) = control s"
  by (simp add: on_ret_def Let_def split_def split: index_regp.splits regp.splits regp2.splits reg.splits)

lemma control_on_ret_cc [simp]: "control (on_ret_cc cc s) = control s"
  by (simp add: on_ret_cc_def Let_def split_def split: index_regp.splits regp.splits regp2.splits reg.splits)

lemma control_on_rrca [simp]: "control (on_rrca s) = control s"
  by (simp add: on_rrca_def Let_def split_def split: index_regp.splits regp.splits regp2.splits reg.splits)

lemma control_on_scf [simp]: "control (on_scf s) = control s"
  by (simp add: on_scf_def Let_def split_def split: index_regp.splits regp.splits regp2.splits reg.splits)

lemma control_on_set [simp]: "control (on_set b r d s) = control s"
  by (simp add: on_set_def Let_def split_def split: index_regp.splits regp.splits regp2.splits reg.splits)

lemma control_do_alu: "do_alu k n s = Inr s' \<Longrightarrow> control s' = control s"
  by (auto simp add: do_alu_def Let_def split: alu.splits if_splits)

lemma control_on_alu_n: "on_alu_n k n s = Inr s' \<Longrightarrow> control s' = control s"
  by (simp add: on_alu_n_def control_do_alu)

lemma control_on_alu_r: "on_alu_r k r d s = Inr s' \<Longrightarrow> control s' = control s"
  using control_do_alu [of k "fst (on_get_r r d False s)" "snd (on_get_r r d False s)" s']
  by (simp add: on_alu_r_def split_def Let_def)

lemma control_on_cb_prefix [simp]:
  "control (on_cb_prefix s) = (index_rp s, index_rp s, prefix_cb, disable_int s)"
  by (simp add: on_cb_prefix_def control_def)

lemma control_on_ed_prefix [simp]:
  "control (on_ed_prefix s) = (index_rp s, next_index_rp s, prefix_ed, disable_int s)"
  by (simp add: on_ed_prefix_def control_def)

lemma control_on_ei [simp]:
  "control (on_ei s) = (index_rp s, next_index_rp s, prefix s, True)"
  by (simp add: on_ei_def on_disable_int_def on_set_iff1_def on_set_iff2_def control_def)

lemma control_on_set_next_index_rp [simp]:
  "control (on_set_next_index_rp irp s) = (index_rp s, irp, prefix s, True)"
  by (simp add: on_set_next_index_rp_def on_disable_int_def control_def)

lemma fst_on_fetch: "fst (on_fetch s) = image_bytes s (pc s)"
  by (simp add: on_fetch_def on_fetch_cycle_def on_get_pc_def on_access_def split_def Let_def)

lemma control_decode_unprefixed:
  assumes "decode_unprefixed s = Inr s'"
  shows "control s' =
     (let op = image_bytes s (pc s)
      in (index_rp s,
          if op = 0xCB then index_rp s else if op = 0xFD then irp_iy else next_index_rp s,
          if op = 0xCB then prefix_cb else if op = 0xED then prefix_ed else prefix s,
          disable_int s \<or> op = 0xFB \<or> op = 0xFD))"
proof -
  obtain op s1 where f: "on_fetch s = (op, s1)" by (cases "on_fetch s")
  have op: "op = image_bytes s (pc s)" using fst_on_fetch [of s] f by simp
  have c: "control s1 = control s" using control_on_fetch [of s] f by simp
  note cf = control_fields [OF c]
  show ?thesis
    using assms c
    unfolding decode_unprefixed_def f
    by (auto simp add: Let_def split_def op [symmetric] cf control_eq [of s]
        dest!: control_on_alu_n control_on_alu_r split: if_splits)
qed

lemma control_prefix_reset_guard:
  "prefix_reset_guard r = Inr s' \<Longrightarrow>
     \<exists>s1. r = Inr s1 \<and> control s' = (case control s1 of (i, n, p, d) \<Rightarrow> (i, n, prefix_none, d))"
  by (cases r) (auto simp add: prefix_reset_guard_def control_def on_prefix_reset_def)

lemma control_decode_cb_prefixed:
  assumes "decode_cb_prefixed s = Inr s'"
  shows "control s' = (index_rp s, next_index_rp s, prefix_none, disable_int s)"
  using control_prefix_reset_guard [OF assms [unfolded decode_cb_prefixed_def]]
  by (auto simp add: Let_def split_def control_eq [of s] split: if_splits)

lemma control_decode_ed_prefixed:
  assumes "decode_ed_prefixed s = Inr s'"
  shows "control s' = (index_rp s, next_index_rp s, prefix_none, disable_int s)"
  using control_prefix_reset_guard [OF assms [unfolded decode_ed_prefixed_def]]
  by (auto simp add: Let_def split_def control_eq [of s] split: if_splits)

text \<open>What a step that returns leaves in the decoder state and in \<open>disable_int\<close>, by the
  prefix it started under and the byte at \<open>PC\<close>.\<close>

lemma on_step_control:
  assumes "on_step s = Inr s'"
  shows "control s' =
     (let op = image_bytes s (pc s)
      in if prefix s = prefix_none then
           (next_index_rp s,
            if op = 0xCB then next_index_rp s else if op = 0xFD then irp_iy else irp_hl,
            if op = 0xCB then prefix_cb else if op = 0xED then prefix_ed else prefix_none,
            disable_int s \<or> op = 0xFB \<or> op = 0xFD)
         else (next_index_rp s, irp_hl, prefix_none, disable_int s))"
  using assms
  by (auto simp add: on_step_def on_decode_def Let_def
      dest!: control_decode_unprefixed control_decode_cb_prefixed control_decode_ed_prefixed
      split: instruction_prefix.splits)

section \<open>SCF and CCF\<close>

text \<open>
  Claim C8.  For every state: SCF sets the C flag (bit 0 of F), clears H (bit 4) and N
  (bit 1), copies Y (bit 5) and X (bit 3) from A and preserves S (bit 7), Z (bit 6) and
  P/V (bit 2); CCF complements C, sets H to the old value of C, clears N, copies Y and X
  from A and preserves S, Z and P/V; neither changes A.
\<close>

theorem scf_ccf_flags:
  "bit (get_f (on_scf s)) 0 \<and> \<not> bit (get_f (on_scf s)) 4 \<and> \<not> bit (get_f (on_scf s)) 1 \<and>
   bit (get_f (on_scf s)) 5 = bit (get_a s) 5 \<and>
   bit (get_f (on_scf s)) 3 = bit (get_a s) 3 \<and>
   bit (get_f (on_scf s)) 7 = bit (get_f s) 7 \<and>
   bit (get_f (on_scf s)) 6 = bit (get_f s) 6 \<and>
   bit (get_f (on_scf s)) 2 = bit (get_f s) 2 \<and>
   get_a (on_scf s) = get_a s \<and>
   bit (get_f (on_ccf s)) 0 = (\<not> bit (get_f s) 0) \<and>
   bit (get_f (on_ccf s)) 4 = bit (get_f s) 0 \<and> \<not> bit (get_f (on_ccf s)) 1 \<and>
   bit (get_f (on_ccf s)) 5 = bit (get_a s) 5 \<and>
   bit (get_f (on_ccf s)) 3 = bit (get_a s) 3 \<and>
   bit (get_f (on_ccf s)) 7 = bit (get_f s) 7 \<and>
   bit (get_f (on_ccf s)) 6 = bit (get_f s) 6 \<and>
   bit (get_f (on_ccf s)) 2 = bit (get_f s) 2 \<and>
   get_a (on_ccf s) = get_a s"
  by (simp add: on_scf_def on_ccf_def Let_def bit_simps cf_ari_def test_bit_mask8)

section \<open>Push and pop\<close>

lemma on_push_eq:
  "on_push nn s =
     s\<lparr>image_bytes := (image_bytes s)(sp s - 1 := get_high8 nn, sp s - 2 := get_low8 nn),
       ticks := ticks s + 6, sp := sp s - 2\<rparr>"
  by (simp add: on_push_def cycle_defs Let_def)

lemma on_pop_eq:
  "on_pop s =
     (make16 (image_bytes s (sp s + 1)) (image_bytes s (sp s)),
      s\<lparr>ticks := ticks s + 6, last_read_addr := sp s + 1, sp := sp s + 2\<rparr>)"
  by (simp add: on_pop_def cycle_defs Let_def)

text \<open>
  Claim C10.  For every 16-bit value \<open>nn\<close> and every SP (the two stacked addresses
  \<open>SP - 1\<close> and \<open>SP - 2\<close> are always distinct): a push writes the high byte at \<open>SP - 1\<close>
  and the low byte at \<open>SP - 2\<close>, changes no other byte, and leaves SP decreased by 2
  (mod \<open>2^16\<close>); a pop returns the low byte from SP and the high byte from \<open>SP + 1\<close>, changes
  no byte, and leaves SP increased by 2; a pop immediately after a push returns \<open>nn\<close> and
  restores the original SP.
\<close>

theorem push_pop_roundtrip:
  "sp s - 1 \<noteq> sp s - 2 \<and>
   image_bytes (on_push nn s) =
     (image_bytes s)(sp s - 1 := get_high8 nn, sp s - 2 := get_low8 nn) \<and>
   sp (on_push nn s) = sp s - 2 \<and>
   fst (on_pop s) = make16 (image_bytes s (sp s + 1)) (image_bytes s (sp s)) \<and>
   image_bytes (snd (on_pop s)) = image_bytes s \<and>
   sp (snd (on_pop s)) = sp s + 2 \<and>
   fst (on_pop (on_push nn s)) = nn \<and>
   sp (snd (on_pop (on_push nn s))) = sp s"
  by (simp add: on_push_eq on_pop_eq)

section \<open>The 8-bit ALU\<close>

text \<open>
  Claim C6.  For every state and operand \<open>n\<close>: ADD, SUB, AND, XOR and OR return, leave
  their result in A, and the Y and X flags (bits 5 and 3 of F) are bits 5 and 3 of that
  result; CP returns, leaves A unchanged, sets N (bit 1 of F), and takes Y and X from
  the operand \<open>n\<close>.  (ADC and SBC are the two operations the source leaves as
  \<open>assert(0)\<close>.)
\<close>

theorem do_alu_yx_flags:
  "(\<exists>s'. do_alu alu_add n s = Inr s' \<and> get_a s' = add8 (get_a s) n \<and>
         bit (get_f s') 5 = bit (get_a s') 5 \<and> bit (get_f s') 3 = bit (get_a s') 3) \<and>
   (\<exists>s'. do_alu alu_sub n s = Inr s' \<and> get_a s' = sub8 (get_a s) n \<and>
         bit (get_f s') 5 = bit (get_a s') 5 \<and> bit (get_f s') 3 = bit (get_a s') 3) \<and>
   (\<exists>s'. do_alu alu_and_a n s = Inr s' \<and> get_a s' = get_a s AND n \<and>
         bit (get_f s') 5 = bit (get_a s') 5 \<and> bit (get_f s') 3 = bit (get_a s') 3) \<and>
   (\<exists>s'. do_alu alu_xor_a n s = Inr s' \<and> get_a s' = get_a s XOR n \<and>
         bit (get_f s') 5 = bit (get_a s') 5 \<and> bit (get_f s') 3 = bit (get_a s') 3) \<and>
   (\<exists>s'. do_alu alu_or_a n s = Inr s' \<and> get_a s' = get_a s OR n \<and>
         bit (get_f s') 5 = bit (get_a s') 5 \<and> bit (get_f s') 3 = bit (get_a s') 3) \<and>
   (\<exists>s'. do_alu alu_cp n s = Inr s' \<and> get_a s' = get_a s \<and>
         bit (get_f s') 5 = bit n 5 \<and> bit (get_f s') 3 = bit n 3 \<and> bit (get_f s') 1)"
  by (simp add: do_alu_def Let_def bit_simps zf_ari_def hf_ari_def pf_ari_def pf_log_def
      cf_ari_def)

section \<open>MEMPTR and the indexed memory operand\<close>

text \<open>
  Claim C9.  Every read or write of the memory operand goes through \<open>read_at_disp\<close> or
  \<open>write_at_disp\<close> (\<open>on_get_r\<close> and \<open>on_set_r\<close> at \<open>at_hl\<close>).  Under index IX or IY the
  access is at the index register plus the sign-extended displacement (mod \<open>2^16\<close>) and
  MEMPTR is set to that address; under HL the access leaves MEMPTR unchanged.
\<close>

theorem indexed_access_sets_memptr:
  "on_get_r at_hl d l s = read_at_disp d l s \<and>
   on_set_r at_hl d n s = write_at_disp d n s \<and>
   fst (read_at_disp d l s) =
     image_bytes s ((case index_rp s of irp_hl \<Rightarrow> hl s | irp_ix \<Rightarrow> ix s | irp_iy \<Rightarrow> iy s)
                    + scast d) \<and>
   memptr (snd (read_at_disp d l s)) =
     (case index_rp s of irp_hl \<Rightarrow> memptr s | irp_ix \<Rightarrow> ix s + scast d
      | irp_iy \<Rightarrow> iy s + scast d) \<and>
   image_bytes (write_at_disp d n s) =
     (image_bytes s)
       ((case index_rp s of irp_hl \<Rightarrow> hl s | irp_ix \<Rightarrow> ix s | irp_iy \<Rightarrow> iy s)
        + scast d := n) \<and>
   memptr (write_at_disp d n s) =
     (case index_rp s of irp_hl \<Rightarrow> memptr s | irp_ix \<Rightarrow> ix s + scast d
      | irp_iy \<Rightarrow> iy s + scast d)"
  by (simp add: on_get_r_def on_set_r_def read_at_disp_def write_at_disp_def
      get_disp_target_scast on_get_index_rp_def get_index_rp_kind_def on_get_pair
      cycle_defs Let_def split: index_regp.splits)

section \<open>ADD HL,rp\<close>

text \<open>
  Claim C7.  From reset with \<open>21 00 80 29\<close> at address 0, two steps leave \<open>HL = 0\<close>,
  \<open>MEMPTR = 0x8001\<close> and 21 ticks, as the claim says, but F is still 0: the C flag is
  not set.  \<open>on_add_irp_rp\<close> never stores the flags it computes, for any operands.
\<close>

theorem add_hl_hl_keeps_flags:
  "observe hl (steps 2 add_hl_hl_machine) = Some 0 \<and>
   observe memptr (steps 2 add_hl_hl_machine) = Some 0x8001 \<and>
   observe ticks (steps 2 add_hl_hl_machine) = Some 21 \<and>
   observe get_f (steps 2 add_hl_hl_machine) = Some 0 \<and>
   get_f (on_add_irp_rp rp s) = get_f s"
proof -
  have "get_f (on_add_irp_rp rp s) = get_f s"
    by (simp add: on_add_irp_rp_def Let_def on_set_index_rp_def on_set_pair cycle_defs
        get_f_def split: index_regp.splits)
  moreover have "observe hl (steps 2 add_hl_hl_machine) = Some 0"
    by code_simp
  moreover have "observe memptr (steps 2 add_hl_hl_machine) = Some 0x8001"
    by code_simp
  moreover have "observe ticks (steps 2 add_hl_hl_machine) = Some 21"
    by code_simp
  moreover have "observe get_f (steps 2 add_hl_hl_machine) = Some 0"
    by code_simp
  ultimately show ?thesis by simp
qed

section \<open>BIT b,r\<close>

text \<open>
  Claim C5, amended.  For every BIT b,r (\<open>b < 8\<close>) that is unprefixed, or index prefixed
  with the memory operand \<open>(IX+d)\<close> or \<open>(IY+d)\<close>: the tested byte \<open>v\<close> is the register, or
  the memory byte at the operand's address; the C flag is preserved, H is set, N is
  clear, Z and P/V are set exactly when bit \<open>b\<close> of \<open>v\<close> is clear, and S is set exactly when
  \<open>b = 7\<close> and that bit is set.  Y and X come from the high byte of MEMPTR when the operand
  is the memory operand (\<open>(HL)\<close> as well as \<open>(IX+d)\<close> and \<open>(IY+d)\<close>) and from \<open>v\<close> when it is
  a register; MEMPTR is the operand's address after the read of \<open>(IX+d)\<close> or \<open>(IY+d)\<close>
  and unchanged otherwise.  A, the other registers and memory are unchanged.  (The index
  prefixed form whose opcode names a register is not covered by this statement.)
\<close>

theorem on_bit_flags:
  assumes "b < 8" and "index_rp s = irp_hl \<or> r = at_hl"
  shows "let v = fst (on_get_r r d True s);
             s' = on_bit b r d s;
             src = (if r = at_hl then get_high8 (memptr s') else v)
         in (r = at_hl \<longrightarrow>
               v = image_bytes s
                     ((case index_rp s of irp_hl \<Rightarrow> hl s | irp_ix \<Rightarrow> ix s | irp_iy \<Rightarrow> iy s)
                      + scast d)) \<and>
            bit (get_f s') 0 = bit (get_f s) 0 \<and> bit (get_f s') 4 \<and> \<not> bit (get_f s') 1 \<and>
            bit (get_f s') 6 = (\<not> bit v b) \<and> bit (get_f s') 2 = (\<not> bit v b) \<and>
            bit (get_f s') 7 = (b = 7 \<and> bit v 7) \<and>
            bit (get_f s') 5 = bit src 5 \<and> bit (get_f s') 3 = bit src 3 \<and>
            memptr s' = (if r = at_hl \<and> index_rp s \<noteq> irp_hl
                         then (if index_rp s = irp_ix then ix s else iy s) + scast d
                         else memptr s) \<and>
            get_a s' = get_a s \<and> bc s' = bc s \<and> de s' = de s \<and> hl s' = hl s \<and>
            ix s' = ix s \<and> iy s' = iy s \<and> image_bytes s' = image_bytes s"
proof -
  have b7: "(7 - b = 0) = (b = 7)" using assms(1) by auto
  show ?thesis
    using assms
    by (cases r; cases "index_rp s")
      (auto simp add: on_bit_def on_get_r_def read_at_disp_def get_disp_target_scast
        on_get_index_rp_def get_index_rp_kind_def on_get_pair cycle_defs Let_def
        set_f_def get_reg_defs bit_simps and_exp_eq_0_iff_not_bit b7)
qed

theorem on_bit_flags_witness:
  "(0::nat) < 8 \<and> index_rp bit_0_a_machine = irp_hl \<and>
   \<not> bit (get_f (on_bit 0 reg_a 0 bit_0_a_machine)) 6 \<and>
   bit (get_f (on_bit 0 reg_a 0 bit_0_a_machine)) 4 \<and>
   \<not> bit (get_f (on_bit 0 reg_a 0 bit_0_a_machine)) 1 \<and>
   get_a (on_bit 0 reg_a 0 bit_0_a_machine) = 1 \<and>
   index_rp bit_iy_machine = irp_iy \<and>
   memptr (on_bit 0 at_hl 5 bit_iy_machine) = 0x2805 \<and>
   \<not> bit (get_f (on_bit 0 at_hl 5 bit_iy_machine)) 6 \<and>
   bit (get_f (on_bit 0 at_hl 5 bit_iy_machine)) 5 \<and>
   bit (get_f (on_bit 0 at_hl 5 bit_iy_machine)) 3"
proof -
  have h: "(0::nat) < 8" by simp
  have i: "index_rp bit_0_a_machine = irp_hl"
    by (simp add: bit_0_a_machine_def reset_machine_def)
  have a: "get_a bit_0_a_machine = 1"
    by (simp add: bit_0_a_machine_def reset_machine_def get_a_def get_high8_def)
  have 1: "\<not> bit (get_f (on_bit 0 reg_a 0 bit_0_a_machine)) 6 \<and>
      bit (get_f (on_bit 0 reg_a 0 bit_0_a_machine)) 4 \<and>
      \<not> bit (get_f (on_bit 0 reg_a 0 bit_0_a_machine)) 1 \<and>
      get_a (on_bit 0 reg_a 0 bit_0_a_machine) = 1"
    using on_bit_flags [where b = 0 and s = bit_0_a_machine and r = reg_a and d = 0,
        OF h disjI1 [OF i]] a
    by (simp add: Let_def on_get_r_def)
  have m: "at_hl = at_hl" by simp
  have y: "index_rp bit_iy_machine = irp_iy" "iy bit_iy_machine = 0x2800"
    "image_bytes bit_iy_machine 0x2805 = 1"
    by (simp_all add: bit_iy_machine_def reset_machine_def)
  have sc: "(scast (5 :: 8 word) :: 16 word) = 5" by simp
  have hi: "get_high8 0x2805 = 0x28" by (simp add: get_high8_def)
  have 2: "memptr (on_bit 0 at_hl 5 bit_iy_machine) = 0x2805 \<and>
      \<not> bit (get_f (on_bit 0 at_hl 5 bit_iy_machine)) 6 \<and>
      bit (get_f (on_bit 0 at_hl 5 bit_iy_machine)) 5 \<and>
      bit (get_f (on_bit 0 at_hl 5 bit_iy_machine)) 3"
    using on_bit_flags [where b = 0 and s = bit_iy_machine and r = at_hl and d = 5,
        OF h disjI2 [OF m]] y
    by (simp add: Let_def sc hi)
  from h i y(1) 1 2 show ?thesis by simp
qed

theorem bit_at_hl_counterexample:
  "image_bytes bit_at_hl_machine 0x100 = 0x28 \<and>
   observe hl (steps 3 bit_at_hl_machine) = Some 0x100 \<and>
   observe index_rp (steps 3 bit_at_hl_machine) = Some irp_hl \<and>
   observe memptr (steps 3 bit_at_hl_machine) = Some 0 \<and>
   observe get_f (steps 3 bit_at_hl_machine) = Some 0x54"
proof -
  have "image_bytes bit_at_hl_machine 0x100 = 0x28"
    by (simp add: bit_at_hl_machine_def reset_machine_def)
  moreover have "observe hl (steps 3 bit_at_hl_machine) = Some 0x100" by code_simp
  moreover have "observe index_rp (steps 3 bit_at_hl_machine) = Some irp_hl" by code_simp
  moreover have "observe memptr (steps 3 bit_at_hl_machine) = Some 0" by code_simp
  moreover have "observe get_f (steps 3 bit_at_hl_machine) = Some 0x54" by code_simp
  ultimately show ?thesis by simp
qed

section \<open>Undefined ED opcodes\<close>

text \<open>
  Claim C3, amended.  Under the ED prefix, the opcode bytes \<open>0x80\<close>, \<open>0x88\<close>, \<open>0x90\<close> and
  \<open>0x98\<close> (the slots \<open>x = 2\<close>, \<open>z = 0\<close>, \<open>y < 4\<close> that the decoder hands to \<open>on_noni_ed\<close>)
  are no-ops: \<open>step()\<close> returns, and nothing has changed but what the fetch changes (PC,
  four ticks, \<open>last_read_addr\<close>) and the decoder state, which is back to no prefix and
  index HL.  Every other opcode byte the ED decoder has no case for does not return: the
  decoder aborts with the opcode and its address.
\<close>

theorem noni_ed_slots:
  assumes "prefix s = prefix_ed" and "image_bytes s (pc s) = op"
  shows "(op = 0x80 \<or> op = 0x88 \<or> op = 0x90 \<or> op = 0x98 \<longrightarrow>
            on_step s =
              Inr (s\<lparr>index_rp := next_index_rp s, next_index_rp := irp_hl,
                     prefix := prefix_none, last_read_addr := pc s, pc := pc s + 1,
                     ticks := ticks s + 4\<rparr>)) \<and>
         (op AND 0xC7 \<noteq> 0x42 \<and> op AND 0xC7 \<noteq> 0x43 \<and> op AND 0xC7 \<noteq> 0x46 \<and>
          op AND 0xC7 \<noteq> 0x80 \<and> op \<noteq> 0x47 \<longrightarrow>
            on_step s = Inl (Unknown_ed_prefixed_opcode op (pc s)))"
  using assms
  by (auto simp add: on_step_def on_decode_def decode_ed_prefixed_def prefix_reset_guard_def
      on_prefix_reset_def on_noni_ed_def get_y_part_def cycle_defs Let_def)

theorem noni_ed_slots_witness:
  "prefix (ed_80_machine\<lparr>prefix := prefix_ed, pc := 1\<rparr>) = prefix_ed \<and>
   image_bytes (ed_80_machine\<lparr>prefix := prefix_ed, pc := 1\<rparr>)
     (pc (ed_80_machine\<lparr>prefix := prefix_ed, pc := 1\<rparr>)) = 0x80 \<and>
   on_step (ed_80_machine\<lparr>prefix := prefix_ed, pc := 1\<rparr>) =
     Inr (ed_80_machine\<lparr>prefix := prefix_none, last_read_addr := 1, pc := 2, ticks := 4\<rparr>)"
proof -
  let ?m = "ed_80_machine\<lparr>prefix := prefix_ed, pc := 1\<rparr>"
  have p: "prefix ?m = prefix_ed" by simp
  have i: "image_bytes ?m (pc ?m) = 0x80"
    by (simp add: ed_80_machine_def reset_machine_def)
  from noni_ed_slots [OF p i] show ?thesis
    using p i by (simp add: ed_80_machine_def reset_machine_def)
qed

theorem ed_00_counterexample:
  "steps 2 ed_00_machine = Inl (Unknown_ed_prefixed_opcode 0x00 0x0001)"
  by code_simp

section \<open>disable_int\<close>

lemma on_step_keeps_disable_int:
  assumes "on_step s = Inr s'" and "disable_int s"
  shows "disable_int s'"
proof -
  have "disable_int s' = snd (snd (snd (control s')))" by (simp add: control_def)
  then show ?thesis
    using on_step_control [OF assms(1)] assms(2) by (simp add: Let_def split: if_splits)
qed

lemma steps_keep_disable_int:
  "disable_int s \<Longrightarrow> steps n s = Inr s' \<Longrightarrow> disable_int s'"
proof (induction n arbitrary: s)
  case 0
  then show ?case by simp
next
  case (Suc n)
  then obtain s1 where s1: "on_step s = Inr s1" and r: "steps n s1 = Inr s'"
    by (auto split: sum.splits)
  from on_step_keeps_disable_int [OF s1 Suc.prems(1)] have "disable_int s1" .
  from Suc.IH [OF this r] show ?case .
qed

text \<open>The byte \<open>0xDD\<close> has no case in \<open>decode_unprefixed\<close> (\<open>0xFD\<close> has): the decoder aborts.\<close>

lemma dd_prefix_aborts:
  assumes "prefix s = prefix_none" and "image_bytes s (pc s) = 0xDD"
  shows "on_step s = Inl (Unknown_opcode 0xDD (pc s))"
  using assms
  by (simp add: on_step_def on_decode_def decode_unprefixed_def cycle_defs Let_def)

lemma ei_step:
  assumes "prefix s = prefix_none" and "image_bytes s (pc s) = 0xFB"
  shows "on_step s =
     Inr (s\<lparr>index_rp := next_index_rp s, next_index_rp := irp_hl, last_read_addr := pc s,
            pc := pc s + 1, ticks := ticks s + 4, iff1 := True, iff2 := True,
            disable_int := True\<rparr>)"
  using assms
  by (simp add: on_step_def on_decode_def decode_unprefixed_def cycle_defs Let_def on_ei_def
      on_set_iff1_def on_set_iff2_def on_disable_int_def)

lemma fd_prefix_step:
  assumes "prefix s = prefix_none" and "image_bytes s (pc s) = 0xFD"
  shows "on_step s =
     Inr (s\<lparr>index_rp := next_index_rp s, next_index_rp := irp_iy, last_read_addr := pc s,
            pc := pc s + 1, ticks := ticks s + 4, disable_int := True\<rparr>)"
  using assms
  by (simp add: on_step_def on_decode_def decode_unprefixed_def cycle_defs Let_def
      on_set_next_index_rp_def on_disable_int_def)

text \<open>
  Claim C2, amended.  For every state at an instruction boundary, executing an EI
  instruction or an FD prefix byte returns with \<open>disable_int\<close> true, and \<open>disable_int\<close> is
  still true after any number of further \<open>step()\<close> calls that return: no step clears it.
\<close>

theorem disable_int_set_never_cleared:
  assumes "prefix s = prefix_none"
    and "image_bytes s (pc s) = 0xFB \<or> image_bytes s (pc s) = 0xFD"
  shows "\<exists>s1. on_step s = Inr s1 \<and> disable_int s1 \<and>
              (\<forall>n s2. steps n s1 = Inr s2 \<longrightarrow> disable_int s2)"
proof -
  from assms obtain s1 where s1: "on_step s = Inr s1" and d: "disable_int s1"
    using ei_step [of s] fd_prefix_step [of s] by auto
  from d have "\<forall>n s2. steps n s1 = Inr s2 \<longrightarrow> disable_int s2"
    using steps_keep_disable_int by blast
  with s1 d show ?thesis by blast
qed

theorem disable_int_set_never_cleared_witness:
  "prefix ei_nop_machine = prefix_none \<and>
   image_bytes ei_nop_machine (pc ei_nop_machine) = 0xFB \<and>
   (\<exists>s1. on_step ei_nop_machine = Inr s1 \<and> disable_int s1 \<and>
         (\<forall>n s2. steps n s1 = Inr s2 \<longrightarrow> disable_int s2))"
proof -
  have p: "prefix ei_nop_machine = prefix_none"
    by (simp add: ei_nop_machine_def reset_machine_def)
  have i: "image_bytes ei_nop_machine (pc ei_nop_machine) = 0xFB"
    by (simp add: ei_nop_machine_def reset_machine_def)
  from disable_int_set_never_cleared [OF p disjI1 [OF i]] p i show ?thesis by blast
qed

theorem disable_int_counterexample:
  "observe disable_int (steps 1 ei_nop_machine) = Some True \<and>
   observe disable_int (steps 2 ei_nop_machine) = Some True \<and>
   observe disable_int (steps 3 ei_nop_machine) = Some True \<and>
   observe disable_int (steps 1 fd_nop_machine) = Some True \<and>
   observe disable_int (steps 2 fd_nop_machine) = Some True \<and>
   observe disable_int (steps 3 fd_nop_machine) = Some True"
proof -
  have "observe disable_int (steps 1 ei_nop_machine) = Some True" by code_simp
  moreover have "observe disable_int (steps 2 ei_nop_machine) = Some True" by code_simp
  moreover have "observe disable_int (steps 3 ei_nop_machine) = Some True" by code_simp
  moreover have "observe disable_int (steps 1 fd_nop_machine) = Some True" by code_simp
  moreover have "observe disable_int (steps 2 fd_nop_machine) = Some True" by code_simp
  moreover have "observe disable_int (steps 3 fd_nop_machine) = Some True" by code_simp
  ultimately show ?thesis by simp
qed

section \<open>The decoder state after a step\<close>

text \<open>
  Claim C4, amended.  After any \<open>step()\<close> that returns, \<open>next_index_rp\<close> is HL unless the
  step fetched, under no prefix, the FD prefix byte (then it is IY) or the CB prefix byte
  (then it is the index that was pending for this step, which \<open>on_cb_prefix\<close> hands on to
  the CB-prefixed opcode: IY after an FD prefix); and \<open>prefix\<close> is none unless the step
  fetched, under no prefix, the CB or the ED prefix byte.  So after a step that fetched
  no prefix byte, \<open>prefix = none\<close> and \<open>next_index_rp = HL\<close>.
\<close>

theorem decoder_state_after_step:
  assumes "on_step s = Inr s'"
  shows "(prefix s = prefix_none \<and> image_bytes s (pc s) = 0xFD \<longrightarrow>
            next_index_rp s' = irp_iy) \<and>
         (prefix s = prefix_none \<and> image_bytes s (pc s) = 0xCB \<longrightarrow>
            next_index_rp s' = next_index_rp s \<and> prefix s' = prefix_cb) \<and>
         (prefix s = prefix_none \<and> image_bytes s (pc s) = 0xED \<longrightarrow>
            prefix s' = prefix_ed) \<and>
         (\<not> (prefix s = prefix_none \<and>
              (image_bytes s (pc s) = 0xCB \<or> image_bytes s (pc s) = 0xFD)) \<longrightarrow>
            next_index_rp s' = irp_hl) \<and>
         (\<not> (prefix s = prefix_none \<and>
              (image_bytes s (pc s) = 0xCB \<or> image_bytes s (pc s) = 0xED)) \<longrightarrow>
            prefix s' = prefix_none)"
proof -
  have "next_index_rp s' = fst (snd (control s'))" "prefix s' = fst (snd (snd (control s')))"
    by (simp_all add: control_def)
  then show ?thesis
    using on_step_control [OF assms] by (auto simp add: Let_def split: if_splits)
qed

theorem decoder_state_after_step_witness:
  "\<exists>s'. on_step nop_machine = Inr s' \<and> next_index_rp s' = irp_hl \<and> prefix s' = prefix_none"
proof -
  have p: "prefix nop_machine = prefix_none" "image_bytes nop_machine (pc nop_machine) = 0"
    by (simp_all add: nop_machine_def reset_machine_def)
  obtain s' where s: "on_step nop_machine = Inr s'"
    using p by (simp add: on_step_def on_decode_def decode_unprefixed_def cycle_defs Let_def)
  from decoder_state_after_step [OF s] p
  have "next_index_rp s' = irp_hl \<and> prefix s' = prefix_none" by simp
  with s show ?thesis by blast
qed

theorem fd_cb_counterexample:
  "image_bytes fd_cb_machine 1 = 0xCB \<and>
   observe pc (steps 1 fd_cb_machine) = Some 1 \<and>
   observe prefix (steps 1 fd_cb_machine) = Some prefix_none \<and>
   observe pc (steps 2 fd_cb_machine) = Some 2 \<and>
   observe next_index_rp (steps 2 fd_cb_machine) = Some irp_iy"
proof -
  have "image_bytes fd_cb_machine 1 = 0xCB"
    by (simp add: fd_cb_machine_def reset_machine_def)
  moreover have "observe pc (steps 1 fd_cb_machine) = Some 1" by code_simp
  moreover have "observe prefix (steps 1 fd_cb_machine) = Some prefix_none" by code_simp
  moreover have "observe pc (steps 2 fd_cb_machine) = Some 2" by code_simp
  moreover have "observe next_index_rp (steps 2 fd_cb_machine) = Some irp_iy" by code_simp
  ultimately show ?thesis by simp
qed

section \<open>LDIR\<close>






lemma ldir_copy_outside:
  "(\<And>i. i < k \<Longrightarrow> dst + of_nat i \<noteq> a) \<Longrightarrow> ldir_copy k src dst m a = m a"
proof (induction k arbitrary: src dst m)
  case 0
  then show ?case by simp
next
  case (Suc k)
  have "dst + 1 + of_nat i \<noteq> a" if "i < k" for i
    using Suc.prems [of "Suc i"] that by (simp add: ac_simps)
  then have "ldir_copy k (src + 1) (dst + 1) (m(dst := m src)) a = (m(dst := m src)) a"
    by (rule Suc.IH)
  moreover have "dst \<noteq> a" using Suc.prems [of 0] by simp
  ultimately show ?case by simp
qed

lemma of_nat_16_eq_0:
  assumes "n < 65536"
  shows "(of_nat n = (0 :: 16 word)) = (n = 0)"
proof -
  have "(65536 :: nat) dvd n \<longleftrightarrow> n = 0"
  proof
    assume d: "(65536 :: nat) dvd n"
    show "n = 0"
    proof (rule ccontr)
      assume "n \<noteq> 0"
      then have "0 < n" by simp
      from dvd_imp_le [OF d this] assms show False by simp
    qed
  qed simp
  then show ?thesis by (simp add: word_of_nat_eq_0_iff)
qed

text \<open>Copies whose destinations miss the two bytes of the instruction leave them alone.\<close>

lemma ldir_bytes_kept_if_apart:
  assumes "m pc0 = 0xED" and "m (pc0 + 1) = 0xB0"
    and "\<forall>i. Suc i < K \<longrightarrow> dst + of_nat i \<noteq> pc0 \<and> dst + of_nat i \<noteq> pc0 + 1"
  shows "\<forall>j<K. ldir_copy j src dst m pc0 = 0xED \<and> ldir_copy j src dst m (pc0 + 1) = 0xB0"
proof (intro allI impI)
  fix j assume j: "j < K"
  have out: "dst + of_nat i \<noteq> pc0" "dst + of_nat i \<noteq> pc0 + 1" if "i < j" for i
    using assms(3) that j by auto
  show "ldir_copy j src dst m pc0 = 0xED \<and> ldir_copy j src dst m (pc0 + 1) = 0xB0"
    using ldir_copy_outside [of j dst pc0 src m, OF out(1)]
      ldir_copy_outside [of j dst "pc0 + 1" src m, OF out(2)]
    by (simp only: assms(1,2))
qed

text \<open>With \<open>DE = PC + 2\<close> the destinations of the first 65534 copies miss both bytes, so
  the hypothesis can be met up to the largest count, \<open>K = 65535\<close>.\<close>

lemma ldir_full_count_apart:
  fixes pc0 :: fast_u16
  assumes "Suc i < 65535"
  shows "pc0 + 2 + of_nat i \<noteq> pc0 \<and> pc0 + 2 + of_nat i \<noteq> pc0 + 1"
proof -
  have a: "(of_nat (Suc (Suc i)) :: 16 word) \<noteq> 0"
    using of_nat_16_eq_0 [of "Suc (Suc i)"] assms by simp
  have b: "(of_nat (Suc i) :: 16 word) \<noteq> 0"
    using of_nat_16_eq_0 [of "Suc i"] assms by simp
  have "pc0 + 2 + of_nat i = pc0 + of_nat (Suc (Suc i))" by simp
  moreover have "pc0 + 2 + of_nat i = pc0 + 1 + of_nat (Suc i)" by simp
  ultimately show ?thesis using a b by (metis add_cancel_right_right)
qed





end
